theory Spec2Isabelle
  imports Complex_Main
begin

section \<open>JavaScript values shared by the components\<close>

text \<open>
  A JavaScript string is a sequence of UTF-16 code units; \<open>length\<close> counts code units,
  as \<^verbatim>\<open>String.prototype.length\<close> does. Source literals are ASCII and are written
  \<open>js ''...''\<close>.
\<close>

type_synonym jsstring = "nat list"

definition js :: "string \<Rightarrow> jsstring" where
  "js s = map of_char s"

text \<open>An \<^verbatim>\<open>Error\<close> object, as far as the code reads it: its name and its message.\<close>

datatype js_error = Error (err_name: jsstring) (err_message: jsstring)

text \<open>
  A JavaScript number: \<open>NaN\<close>, an infinity, or a finite value (kept exact; the rounding
  of the double is not modelled). Comparisons with \<open>NaN\<close> are false.
\<close>

datatype jsnum = NaN | PosInfinity | NegInfinity | Num real

fun js_le :: "jsnum \<Rightarrow> jsnum \<Rightarrow> bool" where
  "js_le NaN y = False"
| "js_le x NaN = False"
| "js_le NegInfinity y = True"
| "js_le x PosInfinity = True"
| "js_le PosInfinity y = False"
| "js_le x NegInfinity = False"
| "js_le (Num a) (Num b) = (a \<le> b)"

definition js_ge :: "jsnum \<Rightarrow> jsnum \<Rightarrow> bool" where
  "js_ge x y = js_le y x"

fun js_lt :: "jsnum \<Rightarrow> jsnum \<Rightarrow> bool" where
  "js_lt NaN y = False"
| "js_lt x NaN = False"
| "js_lt PosInfinity y = False"
| "js_lt x NegInfinity = False"
| "js_lt NegInfinity y = True"
| "js_lt x PosInfinity = True"
| "js_lt (Num a) (Num b) = (a < b)"

text \<open>
  \<^verbatim>\<open>a / b\<close> for two array lengths: \<^verbatim>\<open>0 / 0\<close> is \<open>NaN\<close> and \<^verbatim>\<open>a / 0\<close> with \<open>a > 0\<close> is
  \<open>Infinity\<close>. \<^verbatim>\<open>x * k\<close> for a finite \<open>k\<close>.
\<close>

definition js_div :: "nat \<Rightarrow> nat \<Rightarrow> jsnum" where
  "js_div a b = (if b = 0 then (if a = 0 then NaN else PosInfinity) else Num (real a / real b))"

definition js_times :: "jsnum \<Rightarrow> real \<Rightarrow> jsnum" where
  "js_times x k =
     (case x of
        NaN \<Rightarrow> NaN
      | PosInfinity \<Rightarrow> (if k > 0 then PosInfinity else if k < 0 then NegInfinity else NaN)
      | NegInfinity \<Rightarrow> (if k > 0 then NegInfinity else if k < 0 then PosInfinity else NaN)
      | Num r \<Rightarrow> Num (r * k))"

section \<open>Retry Handler (RetryHandler.ts)\<close>

text \<open>
  \<^verbatim>\<open>RetryOptions\<close>: every field is optional. \<open>retries\<close> is a count of re-attempts (a
  negative or fractional count is a malformed configuration and outside the model); the
  delays are whole milliseconds. The observer \<^verbatim>\<open>onRetry\<close> is external code: what is
  modelled is whether one was supplied; each of its invocations is recorded in the trace,
  and it is taken to return.
\<close>

record RetryOptions =
  opt_retries :: "nat option"
  opt_baseDelay :: "int option"
  opt_maxDelay :: "int option"
  opt_onRetry :: bool

record RetryHandler =
  this_retries :: nat
  this_baseDelay :: int
  this_maxDelay :: int

text \<open>\<^verbatim>\<open>a ?? b\<close>\<close>

definition nullish :: "'a option \<Rightarrow> 'a \<Rightarrow> 'a" where
  "nullish a b = (case a of Some v \<Rightarrow> v | None \<Rightarrow> b)"

definition new_RetryHandler :: "RetryOptions \<Rightarrow> RetryHandler" where
  "new_RetryHandler options =
     \<lparr> this_retries = nullish (opt_retries options) 3,
       this_baseDelay = nullish (opt_baseDelay options) 1000,
       this_maxDelay = nullish (opt_maxDelay options) 10000 \<rparr>"

text \<open>
  What \<^verbatim>\<open>executeWithRetry\<close> does besides returning: calls of the operation, log lines,
  calls of the observer and timed suspensions, in the order they happen.
\<close>

datatype 'e retry_event =
    Invoke nat
  | LogError nat 'e
  | LogWarn nat int 'e
  | OnRetry nat 'e
  | Sleep int

text \<open>
  The operation \<^verbatim>\<open>fn\<close> is effectful: \<open>fn k\<close> is the outcome of its \<open>k\<close>-th invocation
  (counted from 0), \<open>Inl\<close> a thrown error and \<open>Inr\<close> a returned value. The loop invokes it
  once per iteration, so iteration \<open>attempt\<close> sees \<open>fn attempt\<close>.

  The result is \<open>Inr v\<close> for a returned value and \<open>Inl e\<close> for a thrown one, where
  \<open>e = None\<close> is the \<^verbatim>\<open>undefined\<close> that \<^verbatim>\<open>throw lastError!\<close> after the loop would
  throw if no attempt had been made.
\<close>

function retry_loop ::
  "(nat \<Rightarrow> 'e + 'a) \<Rightarrow> nat \<Rightarrow> int \<Rightarrow> int \<Rightarrow> bool \<Rightarrow> 'e option \<Rightarrow> nat
     \<Rightarrow> ('e option + 'a) \<times> 'e retry_event list" where
  "retry_loop fn retries baseDelay maxDelay onRetry lastError attempt =
     (if attempt \<le> retries then
        (case fn attempt of
           Inr v \<Rightarrow> (Inr v, [Invoke attempt])
         | Inl error \<Rightarrow>
             if attempt = retries then
               (Inl (Some error), [Invoke attempt, LogError (retries + 1) error])
             else
               let delay = min (baseDelay * 2 ^ attempt) maxDelay;
                   rest = retry_loop fn retries baseDelay maxDelay onRetry (Some error) (attempt + 1)
               in (fst rest,
                   [Invoke attempt, LogWarn (attempt + 1) delay error]
                   @ (if onRetry then [OnRetry (attempt + 1) error] else [])
                   @ [Sleep delay]
                   @ snd rest))
      else (Inl lastError, []))"
  by pat_completeness auto
termination
  by (relation "measure (\<lambda>(fn, retries, baseDelay, maxDelay, onRetry, lastError, attempt).
        Suc retries - attempt)") auto

definition executeWithRetry ::
  "RetryHandler \<Rightarrow> (nat \<Rightarrow> 'e + 'a) \<Rightarrow> RetryOptions \<Rightarrow> ('e option + 'a) \<times> 'e retry_event list" where
  "executeWithRetry this fn options =
     (let retries = nullish (opt_retries options) (this_retries this);
          baseDelay = nullish (opt_baseDelay options) (this_baseDelay this);
          maxDelay = nullish (opt_maxDelay options) (this_maxDelay this);
          onRetry = opt_onRetry options
      in retry_loop fn retries baseDelay maxDelay onRetry None 0)"




text \<open>
  An operation exhausts \<open>r\<close> retries when each of its first \<open>r + 1\<close> invocations throws;
  otherwise \<open>first_success\<close> is the value its first successful invocation returns.
\<close>

definition exhausts :: "nat \<Rightarrow> (nat \<Rightarrow> 'e + 'a) \<Rightarrow> bool" where
  "exhausts r fn = list_all (\<lambda>k. isl (fn k)) [0..<Suc r]"

definition first_success :: "nat \<Rightarrow> (nat \<Rightarrow> 'e + 'a) \<Rightarrow> 'a option" where
  "first_success r fn = map_option (\<lambda>k. projr (fn k)) (find (\<lambda>k. \<not> isl (fn k)) [0..<Suc r])"

declare retry_loop.simps [simp del]

section \<open>Scraper Orchestrator (ScraperOrchestrator.ts)\<close>

text \<open>
  \<^verbatim>\<open>ScholarshipScraper\<close>: a name and the effectful \<^verbatim>\<open>scrape()\<close>, given like \<open>fn\<close> above
  by the outcome of each successive call. Extractors throw \<^verbatim>\<open>Error\<close> objects, and
  they share no state: what one returns does not depend on how its calls interleave with
  those of the others.
\<close>

record 'raw ScholarshipScraper =
  name :: jsstring
  scrape :: "nat \<Rightarrow> js_error + 'raw list"

record RetryConfig =
  retry_retries :: nat
  retry_baseDelay :: int
  retry_maxDelay :: int

record ScraperConfig =
  concurrency :: nat
  retry :: RetryConfig

record 'rec ScraperResult =
  source :: jsstring
  scholarships :: "'rec list"
  count :: nat
  processingTime :: int
  success :: bool
  error :: "jsstring option"

record 'rec ScraperSummary =
  totalScholarships :: nat
  successfulSources :: nat
  failedSources :: nat
  totalProcessingTime :: int
  successRate :: jsnum
  results :: "'rec ScraperResult list"

text \<open>
  The orchestrator holds its extractors, its configuration, the normalizer (here its
  \<^verbatim>\<open>normalize\<close> method, a total function on typed raw records) and a retry handler built
  from the configuration. The admission pool \<^verbatim>\<open>pLimit(concurrency)\<close> decides when each
  task starts, not what it returns, and is not part of the state.
\<close>

record ('raw, 'rec) ScraperOrchestrator =
  scrapers :: "'raw ScholarshipScraper list"
  config :: ScraperConfig
  normalizer :: "'raw \<Rightarrow> 'rec"
  retryHandler :: RetryHandler

definition new_ScraperOrchestrator ::
  "ScraperConfig \<Rightarrow> 'raw ScholarshipScraper list \<Rightarrow> ('raw \<Rightarrow> 'rec) \<Rightarrow> ('raw, 'rec) ScraperOrchestrator" where
  "new_ScraperOrchestrator cfg scs normalize_fn =
     \<lparr> scrapers = scs,
       config = cfg,
       normalizer = normalize_fn,
       retryHandler = new_RetryHandler
         \<lparr> opt_retries = Some (retry_retries (retry cfg)),
           opt_baseDelay = Some (retry_baseDelay (retry cfg)),
           opt_maxDelay = Some (retry_maxDelay (retry cfg)),
           opt_onRetry = False \<rparr> \<rparr>"

text \<open>
  \<^verbatim>\<open>scrapeSource\<close>. The clock is read at entry and again on the path taken; the
  difference is the argument \<open>elapsed\<close>. Log lines are not modelled. In the \<^verbatim>\<open>catch\<close>
  block the thrown value is read as an \<^verbatim>\<open>Error\<close>: were it \<^verbatim>\<open>undefined\<close>, reading
  \<^verbatim>\<open>err.name\<close> would itself throw a \<^verbatim>\<open>TypeError\<close> out of \<^verbatim>\<open>scrapeSource\<close>.
\<close>

definition scrapeSource ::
  "('raw, 'rec) ScraperOrchestrator \<Rightarrow> 'raw ScholarshipScraper \<Rightarrow> int \<Rightarrow> js_error + 'rec ScraperResult" where
  "scrapeSource this scraper elapsed =
     (case fst (executeWithRetry (retryHandler this) (scrape scraper)
                  \<lparr> opt_retries = Some (retry_retries (retry (config this))),
                    opt_baseDelay = Some (retry_baseDelay (retry (config this))),
                    opt_maxDelay = Some (retry_maxDelay (retry (config this))),
                    opt_onRetry = True \<rparr>) of
        Inr rawScholarships \<Rightarrow>
          (let normalizedScholarships = map (normalizer this) rawScholarships
           in Inr \<lparr> source = name scraper,
                    scholarships = normalizedScholarships,
                    count = length normalizedScholarships,
                    processingTime = elapsed,
                    success = True,
                    error = None \<rparr>)
      | Inl (Some err) \<Rightarrow>
          Inr \<lparr> source = name scraper,
                scholarships = [],
                count = 0,
                processingTime = elapsed,
                success = False,
                error = Some (err_message err) \<rparr>
      | Inl None \<Rightarrow>
          Inl (Error (js ''TypeError'') (js ''Cannot read properties of undefined'')))"

text \<open>
  \<^verbatim>\<open>Promise.all\<close>: the values in the order of the promises, or a rejection if any
  promise rejects (which one depends on timing; the first in list order is taken here).
\<close>

fun promise_all :: "('e + 'a) list \<Rightarrow> 'e + 'a list" where
  "promise_all [] = Inr []"
| "promise_all (Inl e # ps) = Inl e"
| "promise_all (Inr v # ps) = (case promise_all ps of Inl e \<Rightarrow> Inl e | Inr vs \<Rightarrow> Inr (v # vs))"

text \<open>
  \<^verbatim>\<open>scrapeAll\<close>. \<open>elapsed i\<close> is the time the \<open>i\<close>-th source took and \<open>wall\<close> the
  wall-clock time of the run, both read from the clock.
\<close>

definition scrapeAll ::
  "('raw, 'rec) ScraperOrchestrator \<Rightarrow> (nat \<Rightarrow> int) \<Rightarrow> int \<Rightarrow> js_error + 'rec ScraperSummary" where
  "scrapeAll this elapsed wall =
     (case promise_all (map (\<lambda>(i, scraper). scrapeSource this scraper (elapsed i))
                            (enumerate 0 (scrapers this))) of
        Inl e \<Rightarrow> Inl e
      | Inr rs \<Rightarrow>
          (let successfulResults = filter success rs;
               failedResults = filter (\<lambda>r. \<not> success r) rs;
               total_count = foldl (\<lambda>sum r. sum + count r) 0 successfulResults;
               rate = js_times (js_div (length successfulResults) (length rs)) 100
           in Inr \<lparr> totalScholarships = total_count,
                    successfulSources = length successfulResults,
                    failedSources = length failedResults,
                    totalProcessingTime = wall,
                    successRate = rate,
                    results = rs \<rparr>))"

definition getScholarships :: "'rec ScraperSummary \<Rightarrow> 'rec list" where
  "getScholarships summary = concat (map scholarships (filter success (results summary)))"

text \<open>
  The per-source outcome the specification describes: a source that exhausts its retries
  is recorded as a failure carrying the message of its last error and no records; any
  other source is recorded as a success carrying the normalized records of its first
  successful extraction.
\<close>

definition expected_result ::
  "('raw, 'rec) ScraperOrchestrator \<Rightarrow> 'raw ScholarshipScraper \<Rightarrow> int \<Rightarrow> 'rec ScraperResult" where
  "expected_result this s t =
     (let r = retry_retries (retry (config this)) in
      if exhausts r (scrape s) then
        \<lparr> source = name s, scholarships = [], count = 0, processingTime = t,
          success = False, error = Some (err_message (projl (scrape s r))) \<rparr>
      else
        \<lparr> source = name s,
          scholarships = map (normalizer this) (the (first_success r (scrape s))),
          count = length (the (first_success r (scrape s))),
          processingTime = t, success = True, error = None \<rparr>)"

section \<open>Strings and regular expressions of the platform\<close>

subsection \<open>Code units\<close>

definition cu :: "char \<Rightarrow> nat" where
  "cu c = of_char c"

definition is_digit :: "nat \<Rightarrow> bool" where
  "is_digit c = (48 \<le> c \<and> c \<le> 57)"

definition is_upper_ascii :: "nat \<Rightarrow> bool" where
  "is_upper_ascii c = (65 \<le> c \<and> c \<le> 90)"

definition is_lower_ascii :: "nat \<Rightarrow> bool" where
  "is_lower_ascii c = (97 \<le> c \<and> c \<le> 122)"

text \<open>The class \<^verbatim>\<open>\w\<close>, which decides \<^verbatim>\<open>\b\<close>.\<close>

definition is_word_char :: "nat \<Rightarrow> bool" where
  "is_word_char c = (is_digit c \<or> is_upper_ascii c \<or> is_lower_ascii c \<or> c = 95)"

text \<open>
  \<^verbatim>\<open>\s\<close>, and what \<^verbatim>\<open>trim\<close> strips: the white space and line terminator code points
  of ECMAScript (TAB, LF, VT, FF, CR, SP, NBSP, U+1680, U+2000 to U+200A, U+2028, U+2029,
  U+202F, U+205F, U+3000, U+FEFF).
\<close>

definition is_space :: "nat \<Rightarrow> bool" where
  "is_space c = ((9 \<le> c \<and> c \<le> 13) \<or> c = 32 \<or> c = 160 \<or> c = 5760 \<or> (8192 \<le> c \<and> c \<le> 8202)
                 \<or> c = 8232 \<or> c = 8233 \<or> c = 8239 \<or> c = 8287 \<or> c = 12288 \<or> c = 65279)"

definition is_line_terminator :: "nat \<Rightarrow> bool" where
  "is_line_terminator c = (c = 10 \<or> c = 13 \<or> c = 8232 \<or> c = 8233)"

text \<open>
  Case mapping is modelled on the ASCII letters; other code units are left as they are
  (the Unicode case mapping of non-ASCII letters is outside the model). Every keyword and
  table key of the source is ASCII.
\<close>

definition lower_ascii :: "nat \<Rightarrow> nat" where
  "lower_ascii c = (if is_upper_ascii c then c + 32 else c)"

definition upper_ascii :: "nat \<Rightarrow> nat" where
  "upper_ascii c = (if is_lower_ascii c then c - 32 else c)"

definition toLowerCase :: "jsstring \<Rightarrow> jsstring" where
  "toLowerCase s = map lower_ascii s"

definition toUpperCase :: "jsstring \<Rightarrow> jsstring" where
  "toUpperCase s = map upper_ascii s"

definition trim :: "jsstring \<Rightarrow> jsstring" where
  "trim s = rev (dropWhile is_space (rev (dropWhile is_space s)))"

fun startsWith :: "jsstring \<Rightarrow> jsstring \<Rightarrow> bool" where
  "startsWith s [] = True"
| "startsWith [] (k # ks) = False"
| "startsWith (c # s) (k # ks) = (c = k \<and> startsWith s ks)"

text \<open>\<^verbatim>\<open>s.includes(k)\<close>\<close>

fun str_includes :: "jsstring \<Rightarrow> jsstring \<Rightarrow> bool" where
  "str_includes [] k = (k = [])"
| "str_includes (c # s) k = (startsWith (c # s) k \<or> str_includes s k)"

text \<open>\<^verbatim>\<open>xs.join(sep)\<close>\<close>

fun join :: "jsstring \<Rightarrow> jsstring list \<Rightarrow> jsstring" where
  "join sep [] = []"
| "join sep [x] = x"
| "join sep (x # y # ys) = x @ sep @ join sep (y # ys)"

text \<open>\<^verbatim>\<open>s.split(' ')\<close> with a one-unit separator: the pieces between its occurrences.\<close>

fun split_on :: "nat \<Rightarrow> jsstring \<Rightarrow> jsstring list" where
  "split_on sep [] = [[]]"
| "split_on sep (c # s) =
     (if c = sep then [] # split_on sep s
      else (case split_on sep s of p # ps \<Rightarrow> (c # p) # ps | [] \<Rightarrow> [[c]]))"

subsection \<open>Regular expressions\<close>

text \<open>
  The fragment of ECMAScript regular expressions the source uses, without the \<^verbatim>\<open>u\<close> flag:
  a class of code units, sequence, alternation, the greedy star, a capturing group, the
  assertions \<^verbatim>\<open>^\<close>, \<^verbatim>\<open>$\<close> (without the \<^verbatim>\<open>m\<close> flag) and \<^verbatim>\<open>\b\<close>.
\<close>

datatype rx =
    Cls "nat \<Rightarrow> bool"
  | Eps
  | Seq rx rx
  | Alt rx rx
  | Star rx
  | Grp rx
  | Bol
  | Eol
  | WordB

text \<open>\<^verbatim>\<open>r?\<close>, \<^verbatim>\<open>r+\<close>, \<^verbatim>\<open>r{n}\<close>, \<^verbatim>\<open>r{n,m}\<close> (all greedy) and a literal string.\<close>

definition Opt :: "rx \<Rightarrow> rx" where
  "Opt r = Alt r Eps"

definition Plus :: "rx \<Rightarrow> rx" where
  "Plus r = Seq r (Star r)"

fun Times :: "nat \<Rightarrow> rx \<Rightarrow> rx" where
  "Times 0 r = Eps"
| "Times (Suc n) r = Seq r (Times n r)"

fun UpTo :: "nat \<Rightarrow> rx \<Rightarrow> rx" where
  "UpTo 0 r = Eps"
| "UpTo (Suc n) r = Opt (Seq r (UpTo n r))"

definition Between :: "nat \<Rightarrow> nat \<Rightarrow> rx \<Rightarrow> rx" where
  "Between n m r = Seq (Times n r) (UpTo (m - n) r)"

definition Chr :: "char \<Rightarrow> rx" where
  "Chr c = Cls (\<lambda>x. x = cu c)"

text \<open>
  A letter under the \<^verbatim>\<open>i\<close> flag. Without the \<^verbatim>\<open>u\<close> flag a code unit above 127 is
  never identified with an ASCII one, so an ASCII letter matches its two cases only.
\<close>

definition ChrI :: "char \<Rightarrow> rx" where
  "ChrI c = Cls (\<lambda>x. lower_ascii x = lower_ascii (cu c))"

fun Lit :: "string \<Rightarrow> rx" where
  "Lit [] = Eps"
| "Lit (c # cs) = Seq (Chr c) (Lit cs)"

fun LitI :: "string \<Rightarrow> rx" where
  "LitI [] = Eps"
| "LitI (c # cs) = Seq (ChrI c) (LitI cs)"

text \<open>
  A matcher state: the code unit before the current position (none at the start of the
  input), the input that remains, and the captures of the groups closed so far.
  \<open>rx_run r s\<close> lists the states in which a match of \<open>r\<close> begun in \<open>s\<close> can end, in the
  order in which the backtracking matcher of ECMAScript tries them: its head is the match
  the matcher reports. An iteration of a star that consumes nothing is rejected, as there;
  so a star iterates at most once per remaining code unit.
\<close>

type_synonym mstate = "nat option \<times> jsstring \<times> jsstring list"

fun star_run :: "(mstate \<Rightarrow> mstate list) \<Rightarrow> nat \<Rightarrow> mstate \<Rightarrow> mstate list" where
  "star_run f 0 s = [s]"
| "star_run f (Suc n) s =
     concat (map (star_run f n)
               (filter (\<lambda>s'. length (fst (snd s')) < length (fst (snd s))) (f s))) @ [s]"

fun word_before :: "nat option \<Rightarrow> bool" where
  "word_before None = False"
| "word_before (Some c) = is_word_char c"

fun word_after :: "jsstring \<Rightarrow> bool" where
  "word_after [] = False"
| "word_after (c # cs) = is_word_char c"

fun rx_run :: "rx \<Rightarrow> mstate \<Rightarrow> mstate list" where
  "rx_run (Cls P) (p, [], caps) = []"
| "rx_run (Cls P) (p, c # cs, caps) = (if P c then [(Some c, cs, caps)] else [])"
| "rx_run Eps s = [s]"
| "rx_run (Seq a b) s = concat (map (rx_run b) (rx_run a s))"
| "rx_run (Alt a b) s = rx_run a s @ rx_run b s"
| "rx_run (Star r) s = star_run (rx_run r) (length (fst (snd s))) s"
| "rx_run (Grp r) (p, cs, caps) =
     map (\<lambda>(p', cs', caps'). (p', cs', caps' @ [take (length cs - length cs') cs]))
         (rx_run r (p, cs, caps))"
| "rx_run Bol (p, cs, caps) = (if p = None then [(p, cs, caps)] else [])"
| "rx_run Eol (p, cs, caps) = (if cs = [] then [(p, cs, caps)] else [])"
| "rx_run WordB (p, cs, caps) = (if word_before p \<noteq> word_after cs then [(p, cs, caps)] else [])"

text \<open>
  A match attempt at one position: the number of code units the reported match consumes
  and its captures, or \<open>None\<close>.
\<close>

definition rx_match_at :: "rx \<Rightarrow> nat option \<Rightarrow> jsstring \<Rightarrow> (nat \<times> jsstring list) option" where
  "rx_match_at r p cs =
     (case rx_run r (p, cs, []) of
        [] \<Rightarrow> None
      | (p', cs', caps) # others \<Rightarrow> Some (length cs - length cs', caps))"

text \<open>
  \<^verbatim>\<open>regex.exec(s)\<close> for a regex without the \<^verbatim>\<open>g\<close> flag: the first position, from the left,
  at which a match exists; \<open>rx_exec_from\<close> carries the code unit before the position.
  The result is the matched text followed by the captures, as in the match array.
\<close>

fun rx_exec_from :: "rx \<Rightarrow> nat option \<Rightarrow> jsstring \<Rightarrow> jsstring list option" where
  "rx_exec_from r p [] =
     (case rx_match_at r p [] of None \<Rightarrow> None | Some (k, caps) \<Rightarrow> Some ([] # caps))"
| "rx_exec_from r p (c # cs) =
     (case rx_match_at r p (c # cs) of
        None \<Rightarrow> rx_exec_from r (Some c) cs
      | Some (k, caps) \<Rightarrow> Some (take k (c # cs) # caps))"

definition rx_exec :: "rx \<Rightarrow> jsstring \<Rightarrow> jsstring list option" where
  "rx_exec r s = rx_exec_from r None s"

text \<open>\<^verbatim>\<open>regex.test(s)\<close>\<close>

definition rx_test :: "rx \<Rightarrow> jsstring \<Rightarrow> bool" where
  "rx_test r s = (rx_exec r s \<noteq> None)"





text \<open>
  \<^verbatim>\<open>s.split(regex)\<close> for a regex without capturing groups. A match is tried at each
  position before the end of the input; a match that ends where the current piece starts
  is passed over. \<open>cur\<close> is the piece collected so far.
\<close>

fun rx_split_from :: "rx \<Rightarrow> nat \<Rightarrow> jsstring \<Rightarrow> nat option \<Rightarrow> jsstring \<Rightarrow> jsstring list" where
  "rx_split_from r skip cur p [] = [cur]"
| "rx_split_from r (Suc n) cur p (c # cs) = rx_split_from r n cur (Some c) cs"
| "rx_split_from r 0 cur p (c # cs) =
     (case rx_match_at r p (c # cs) of
        None \<Rightarrow> rx_split_from r 0 (cur @ [c]) (Some c) cs
      | Some (k, caps) \<Rightarrow>
          if k = 0 then
            (if cur = [] then rx_split_from r 0 [c] (Some c) cs
             else cur # rx_split_from r 0 [c] (Some c) cs)
          else cur # rx_split_from r (k - 1) [] (Some c) cs)"

definition rx_split :: "rx \<Rightarrow> jsstring \<Rightarrow> jsstring list" where
  "rx_split r s =
     (if s = [] then (if rx_match_at r None [] \<noteq> None then [] else [[]])
      else rx_split_from r 0 [] None s)"

text \<open>A sequence of several parts, and the classes \<^verbatim>\<open>\d\<close> and \<^verbatim>\<open>\s\<close>.\<close>

fun Seqs :: "rx list \<Rightarrow> rx" where
  "Seqs [] = Eps"
| "Seqs [r] = r"
| "Seqs (r # rs) = Seq r (Seqs rs)"

definition digit :: rx where
  "digit = Cls is_digit"


subsection \<open>Decimal numerals\<close>

text \<open>The value of a string of decimal digits, as \<^verbatim>\<open>parseInt\<close> reads it.\<close>

definition digits_value :: "jsstring \<Rightarrow> nat" where
  "digits_value ds = foldl (\<lambda>n c. 10 * n + (c - 48)) 0 ds"


section \<open>Amount Parser (AmountParser.ts)\<close>














section \<open>Dates of the platform\<close>

text \<open>
  A time value is a number of milliseconds since the epoch, an \<^verbatim>\<open>Invalid Date\<close> has the
  time value \<open>NaN\<close>; a \<^verbatim>\<open>Date\<close> is modelled by \<open>int option\<close>. The abstract operations
  are those of ECMAScript, section "Date Objects".
\<close>

definition msPerDay :: int where
  "msPerDay = 86400000"

definition Day :: "int \<Rightarrow> int" where
  "Day t = t div msPerDay"

definition TimeWithinDay :: "int \<Rightarrow> int" where
  "TimeWithinDay t = t mod msPerDay"

definition DayFromYear :: "int \<Rightarrow> int" where
  "DayFromYear y = 365 * (y - 1970) + (y - 1969) div 4 - (y - 1901) div 100 + (y - 1601) div 400"

definition InLeapYear :: "int \<Rightarrow> bool" where
  "InLeapYear y = (y mod 4 = 0 \<and> (y mod 100 \<noteq> 0 \<or> y mod 400 = 0))"

text \<open>The number of days of year \<open>y\<close> before its month \<open>mn\<close> (0 for January).\<close>

definition DaysBeforeMonth :: "int \<Rightarrow> int \<Rightarrow> int" where
  "DaysBeforeMonth y mn =
     [0, 31, 59, 90, 120, 151, 181, 212, 243, 273, 304, 334] ! nat mn
     + (if InLeapYear y \<and> 2 \<le> mn then 1 else 0)"

text \<open>
  \<^verbatim>\<open>MakeDay(year, month, date)\<close>: a month outside \<open>0..11\<close> carries into the year, a date
  outside the month carries into the following days.
\<close>

definition MakeDay :: "int \<Rightarrow> int \<Rightarrow> int \<Rightarrow> int" where
  "MakeDay year month date =
     (let ym = year + month div 12;
          mn = month mod 12
      in DayFromYear ym + DaysBeforeMonth ym mn + date - 1)"

text \<open>
  The civil date of a day number: year, month (0 for January) and day of the month. This
  is the usual closed form over 400-year eras counted from 1 March of year 0; it computes
  \<^verbatim>\<open>YearFromTime\<close>, \<^verbatim>\<open>MonthFromTime\<close> and \<^verbatim>\<open>DateFromTime\<close>.
\<close>

definition civil_from_day :: "int \<Rightarrow> int \<times> int \<times> int" where
  "civil_from_day d =
     (let z = d + 719468;
          era = z div 146097;
          doe = z mod 146097;
          yoe = (doe - doe div 1460 + doe div 36524 - doe div 146096) div 365;
          doy = doe - (365 * yoe + yoe div 4 - yoe div 100);
          mp = (5 * doy + 2) div 153;
          dt = doy - (153 * mp + 2) div 5 + 1;
          m = (if mp < 10 then mp + 3 else mp - 9);
          y = yoe + era * 400 + (if m \<le> 2 then 1 else 0)
      in (y, m - 1, dt))"

definition YearFromTime :: "int \<Rightarrow> int" where
  "YearFromTime t = fst (civil_from_day (Day t))"

definition MonthFromTime :: "int \<Rightarrow> int" where
  "MonthFromTime t = fst (snd (civil_from_day (Day t)))"

definition DateFromTime :: "int \<Rightarrow> int" where
  "DateFromTime t = snd (snd (civil_from_day (Day t)))"

text \<open>
  The local time zone is a parameter: the offset (local minus UTC, in ms) in force at a
  UTC time value and the one the platform chooses for a local time value.
\<close>

record timezone =
  offset_at_utc :: "int \<Rightarrow> int"
  offset_at_local :: "int \<Rightarrow> int"

definition utc_zone :: timezone where
  "utc_zone = \<lparr> offset_at_utc = (\<lambda>t. 0), offset_at_local = (\<lambda>t. 0) \<rparr>"

definition LocalTime :: "timezone \<Rightarrow> int \<Rightarrow> int" where
  "LocalTime tz t = t + offset_at_utc tz t"

definition UTC :: "timezone \<Rightarrow> int \<Rightarrow> int" where
  "UTC tz t = t - offset_at_local tz t"

definition TimeClip :: "int \<Rightarrow> int option" where
  "TimeClip t = (if \<bar>t\<bar> > 8640000000000000 then None else Some t)"

text \<open>\<^verbatim>\<open>new Date(year, month, day)\<close>: local midnight of that day.\<close>

definition new_Date_ymd :: "timezone \<Rightarrow> int \<Rightarrow> int \<Rightarrow> int \<Rightarrow> int option" where
  "new_Date_ymd tz year month day =
     (let yr = (if 0 \<le> year \<and> year \<le> 99 then 1900 + year else year)
      in TimeClip (UTC tz (MakeDay yr month day * msPerDay)))"

text \<open>\<^verbatim>\<open>getFullYear()\<close>, \<^verbatim>\<open>getMonth()\<close>, \<^verbatim>\<open>getDate()\<close> of a valid date.\<close>

definition getFullYear :: "timezone \<Rightarrow> int \<Rightarrow> int" where
  "getFullYear tz t = YearFromTime (LocalTime tz t)"

definition getMonth :: "timezone \<Rightarrow> int \<Rightarrow> int" where
  "getMonth tz t = MonthFromTime (LocalTime tz t)"

definition getDate :: "timezone \<Rightarrow> int \<Rightarrow> int" where
  "getDate tz t = DateFromTime (LocalTime tz t)"

text \<open>\<open>pad k n\<close>: the last \<open>k\<close> decimal digits of \<open>n\<close>, with leading zeros.\<close>

definition pad :: "nat \<Rightarrow> nat \<Rightarrow> jsstring" where
  "pad k n = map (\<lambda>i. 48 + (n div 10 ^ i) mod 10) (rev [0..<k])"

text \<open>
  \<^verbatim>\<open>toISOString()\<close> of a valid date: \<^verbatim>\<open>YYYY-MM-DDTHH:mm:ss.sssZ\<close> in UTC, the year with
  a sign and six digits outside \<open>0..9999\<close>.
\<close>

definition toISOString :: "int \<Rightarrow> jsstring" where
  "toISOString t =
     (let y = YearFromTime t;
          w = TimeWithinDay t;
          year_text = (if 0 \<le> y \<and> y \<le> 9999 then pad 4 (nat y)
                       else (if y < 0 then js ''-'' else js ''+'') @ pad 6 (nat \<bar>y\<bar>))
      in year_text @ js ''-'' @ pad 2 (nat (MonthFromTime t + 1)) @ js ''-''
         @ pad 2 (nat (DateFromTime t)) @ js ''T''
         @ pad 2 (nat (w div 3600000)) @ js '':'' @ pad 2 (nat ((w div 60000) mod 60)) @ js '':''
         @ pad 2 (nat ((w div 1000) mod 60)) @ js ''.'' @ pad 3 (nat (w mod 1000)) @ js ''Z'')"

section \<open>Data Normalizer (DataNormalizer.ts)\<close>

subsection \<open>Degree levels\<close>

text \<open>The table, in the order of the object literal, which is its iteration order.\<close>

definition degreeMapping :: "(jsstring \<times> jsstring) list" where
  "degreeMapping =
     [(js ''bachelor'', js ''Bachelors''), (js ''bachelors'', js ''Bachelors''),
      (js ''undergraduate'', js ''Bachelors''), (js ''undergrad'', js ''Bachelors''),
      (js ''bs'', js ''Bachelors''), (js ''ba'', js ''Bachelors''), (js ''bsc'', js ''Bachelors''),
      (js ''master'', js ''Masters''), (js ''masters'', js ''Masters''),
      (js ''graduate'', js ''Masters''), (js ''grad'', js ''Masters''), (js ''ms'', js ''Masters''),
      (js ''ma'', js ''Masters''), (js ''msc'', js ''Masters''), (js ''m.s.'', js ''Masters''),
      (js ''m.a.'', js ''Masters''),
      (js ''phd'', js ''PhD''), (js ''ph.d.'', js ''PhD''), (js ''ph.d'', js ''PhD''),
      (js ''doctorate'', js ''PhD''), (js ''doctoral'', js ''PhD''), (js ''doctor'', js ''PhD''),
      (js ''postdoc'', js ''Postdoc''), (js ''postdoctoral'', js ''Postdoc''),
      (js ''post-doctoral'', js ''Postdoc''), (js ''post-doc'', js ''Postdoc'')]"

text \<open>
  The table is a plain object, and \<^verbatim>\<open>this.degreeMapping[key]\<close> is a property read: a key
  that is not an own property is looked up in \<^verbatim>\<open>Object.prototype\<close>, whose members
  (\<^verbatim>\<open>constructor\<close>, \<^verbatim>\<open>__proto__\<close>, \<^verbatim>\<open>toString\<close>, ...) are objects and functions, not
  strings. A value read from the table is therefore either a string of the table or the
  inherited member of that name; any other key reads \<^verbatim>\<open>undefined\<close>.
\<close>

datatype jsprop = StrVal jsstring | Inherited jsstring

definition object_prototype_keys :: "jsstring list" where
  "object_prototype_keys =
     [js ''constructor'', js ''__defineGetter__'', js ''__defineSetter__'', js ''hasOwnProperty'',
      js ''__lookupGetter__'', js ''__lookupSetter__'', js ''isPrototypeOf'',
      js ''propertyIsEnumerable'', js ''toString'', js ''valueOf'', js ''__proto__'',
      js ''toLocaleString'']"

definition get_property :: "(jsstring \<times> jsstring) list \<Rightarrow> jsstring \<Rightarrow> jsprop option" where
  "get_property obj key =
     (case map_of obj key of
        Some v \<Rightarrow> Some (StrVal v)
      | None \<Rightarrow> if key \<in> set object_prototype_keys then Some (Inherited key) else None)"

definition capitalizeWords :: "jsstring \<Rightarrow> jsstring" where
  "capitalizeWords str =
     join (js '' '')
       (map (\<lambda>word. toUpperCase (take 1 word) @ toLowerCase (drop 1 word))
            (split_on (cu CHR '' '') str))"

text \<open>\<^verbatim>\<open>/[\/|&]|\band\b|\bor\b/i\<close>\<close>

definition degreeSeparator :: rx where
  "degreeSeparator =
     Alt (Cls (\<lambda>c. c = cu CHR ''/'' \<or> c = cu CHR ''|'' \<or> c = cu CHR ''&''))
       (Alt (Seqs [WordB, LitI ''and'', WordB]) (Seqs [WordB, LitI ''or'', WordB]))"

definition splitDegrees :: "jsstring \<Rightarrow> jsstring list" where
  "splitDegrees degree = filter (\<lambda>d. length d > 0) (map trim (rx_split degreeSeparator degree))"

text \<open>
  Every value the table read can produce is truthy. The warning logged before the
  fallback is not modelled.
\<close>

definition normalizeDegreeLevel :: "jsstring \<Rightarrow> jsprop" where
  "normalizeDegreeLevel degree =
     (let normalized = toLowerCase (trim degree) in
      case get_property degreeMapping normalized of
        Some v \<Rightarrow> v
      | None \<Rightarrow>
          (case find (\<lambda>(key, v). str_includes normalized key) degreeMapping of
             Some (key, v) \<Rightarrow> StrVal v
           | None \<Rightarrow> StrVal (capitalizeWords degree)))"

text \<open>\<^verbatim>\<open>[...new Set(xs)]\<close>: each element once, in the order of its first occurrence.\<close>

definition set_of_array :: "'a list \<Rightarrow> 'a list" where
  "set_of_array xs = foldl (\<lambda>acc x. if x \<in> set acc then acc else acc @ [x]) [] xs"

text \<open>The argument is \<^verbatim>\<open>string | string[]\<close>: \<open>Inl\<close> a string, \<open>Inr\<close> an array.\<close>

definition normalizeDegree :: "jsstring + jsstring list \<Rightarrow> jsprop list" where
  "normalizeDegree degree =
     (let degrees = (case degree of Inl d \<Rightarrow> [d] | Inr ds \<Rightarrow> ds);
          normalized = map normalizeDegreeLevel (concat (map splitDegrees degrees))
      in set_of_array normalized)"

text \<open>
  The mapping of one fragment as the specification words it: an exact match in the
  synonym table, else the first table key the fragment contains, else title case.
\<close>

definition spec_degree_level :: "jsstring \<Rightarrow> jsstring" where
  "spec_degree_level fragment =
     (let normalized = toLowerCase (trim fragment) in
      case map_of degreeMapping normalized of
        Some v \<Rightarrow> v
      | None \<Rightarrow>
          (case find (\<lambda>(key, v). str_includes normalized key) degreeMapping of
             Some (key, v) \<Rightarrow> v
           | None \<Rightarrow> capitalizeWords fragment))"

subsection \<open>Links\<close>

text \<open>
  \<^verbatim>\<open>new URL(s)\<close> throws when the platform's URL parser rejects \<open>s\<close>; which strings it
  accepts is the parameter \<open>url_ok\<close>. The result is paired with the lines written to the
  logger.
\<close>

datatype log_line = Warn jsstring | LogErr jsstring

definition new_URL :: "(jsstring \<Rightarrow> bool) \<Rightarrow> jsstring \<Rightarrow> js_error + unit" where
  "new_URL url_ok s = (if url_ok s then Inr () else Inl (Error (js ''TypeError'') (js ''Invalid URL'')))"

text \<open>The \<^verbatim>\<open>try\<close> block of \<^verbatim>\<open>normalizeURL\<close>, and the function with its \<^verbatim>\<open>catch\<close> block.\<close>

definition normalizeURL_try :: "(jsstring \<Rightarrow> bool) \<Rightarrow> jsstring \<Rightarrow> js_error + jsstring" where
  "normalizeURL_try url_ok url =
     (let trimmed = trim url in
      if \<not> startsWith trimmed (js ''http://'') \<and> \<not> startsWith trimmed (js ''https://'') then
        Inr (js ''https://'' @ trimmed)
      else (case new_URL url_ok trimmed of
              Inl e \<Rightarrow> Inl e
            | Inr u \<Rightarrow> Inr trimmed))"

definition normalizeURL :: "(jsstring \<Rightarrow> bool) \<Rightarrow> jsstring \<Rightarrow> jsstring \<times> log_line list" where
  "normalizeURL url_ok url =
     (case normalizeURL_try url_ok url of
        Inr normalized \<Rightarrow> (normalized, [])
      | Inl e \<Rightarrow> (url, [Warn (js ''Invalid URL: '' @ url)]))"

text \<open>
  \<^verbatim>\<open>normalizeURL\<close> as the specification words it: trim, prefix when no scheme is there,
  then validate the outcome; on failure warn and return that outcome.
\<close>

definition spec_normalizeURL :: "(jsstring \<Rightarrow> bool) \<Rightarrow> jsstring \<Rightarrow> jsstring \<times> log_line list" where
  "spec_normalizeURL url_ok url =
     (let trimmed = trim url;
          candidate = (if \<not> startsWith trimmed (js ''http://'') \<and> \<not> startsWith trimmed (js ''https://'')
                       then js ''https://'' @ trimmed else trimmed)
      in if url_ok candidate then (candidate, [])
         else (candidate, [Warn (js ''Invalid URL: '' @ url)]))"

text \<open>
  A URL parser for the examples: it rejects a scheme followed by nothing, as the
  platform's parser does (a host is required after \<^verbatim>\<open>http://\<close> and \<^verbatim>\<open>https://\<close>).
\<close>

definition rejects_missing_host :: "jsstring \<Rightarrow> bool" where
  "rejects_missing_host u = (u \<noteq> js ''http://'' \<and> u \<noteq> js ''https://'')"

subsection \<open>Deadlines\<close>

text \<open>
  \<^verbatim>\<open>/^(\d{1,2})\/(\d{1,2})\/(\d{4})$/\<close>, \<^verbatim>\<open>/^(\d{1,2})-(\d{1,2})-(\d{4})$/\<close>,
  \<^verbatim>\<open>/^(\d{4})-(\d{1,2})-(\d{1,2})$/\<close>
\<close>

definition format_slash :: rx where
  "format_slash =
     Seqs [Bol, Grp (Between 1 2 digit), Chr CHR ''/'', Grp (Between 1 2 digit), Chr CHR ''/'',
           Grp (Times 4 digit), Eol]"

definition format_dash :: rx where
  "format_dash =
     Seqs [Bol, Grp (Between 1 2 digit), Chr CHR ''-'', Grp (Between 1 2 digit), Chr CHR ''-'',
           Grp (Times 4 digit), Eol]"

definition format_year_first :: rx where
  "format_year_first =
     Seqs [Bol, Grp (Times 4 digit), Chr CHR ''-'', Grp (Between 1 2 digit), Chr CHR ''-'',
           Grp (Between 1 2 digit), Eol]"

definition formats :: "rx list" where
  "formats = [format_slash, format_dash, format_year_first]"

text \<open>
  The platform around \<^verbatim>\<open>normalizeDate\<close>: \<^verbatim>\<open>parseISO\<close> of date-fns and the
  implementation-defined \<^verbatim>\<open>new Date(string)\<close>, each giving a time value or an invalid
  date, and the local time zone.
\<close>

record date_platform =
  parseISO :: "jsstring \<Rightarrow> int option"
  Date_parse :: "jsstring \<Rightarrow> int option"
  zone :: timezone

text \<open>
  The loop over \<open>formats\<close>. Each pattern has three groups of digits, so the match array is
  the matched text and three captures. The loop returns at the first pattern whose
  constructed date is valid.
\<close>

fun try_formats :: "timezone \<Rightarrow> jsstring \<Rightarrow> rx list \<Rightarrow> jsstring option" where
  "try_formats tz date [] = None"
| "try_formats tz date (formatRegex # later) =
     (case rx_exec formatRegex date of
        Some [whole, g1, g2, g3] \<Rightarrow>
          (let parsedDate =
                 (if str_includes date (js ''/'') then
                    new_Date_ymd tz (int (digits_value g3)) (int (digits_value g1) - 1) (int (digits_value g2))
                  else if str_includes date (js ''-'') \<and> length g1 = 4 then
                    new_Date_ymd tz (int (digits_value g1)) (int (digits_value g2) - 1) (int (digits_value g3))
                  else
                    new_Date_ymd tz (int (digits_value g3)) (int (digits_value g2) - 1) (int (digits_value g1)))
           in case parsedDate of
                Some t \<Rightarrow> Some (toISOString t)
              | None \<Rightarrow> try_formats tz date later)
      | _ \<Rightarrow> try_formats tz date later)"

text \<open>
  The argument is \<^verbatim>\<open>string | Date\<close>: \<open>Inl\<close> a string, \<open>Inr\<close> a date. \<^verbatim>\<open>toISOString\<close> of an
  invalid date throws a \<^verbatim>\<open>RangeError\<close>, which the \<^verbatim>\<open>catch\<close> block turns into
  \<^verbatim>\<open>String(date)\<close>. Log lines are not modelled.
\<close>

text \<open>
  A platform for the examples: the local zone is UTC, and the texts at hand are neither
  ISO-8601 (date-fns rejects a text that does not begin with a year) nor anything the
  date constructor is asked to parse.
\<close>

definition utc_platform :: date_platform where
  "utc_platform = \<lparr> parseISO = (\<lambda>s. None), Date_parse = (\<lambda>s. None), zone = utc_zone \<rparr>"

definition normalizeDate :: "date_platform \<Rightarrow> jsstring + int option \<Rightarrow> jsstring" where
  "normalizeDate env date =
     (case date of
        Inr None \<Rightarrow> js ''Invalid Date''
      | Inr (Some t) \<Rightarrow> toISOString t
      | Inl text \<Rightarrow>
          (case parseISO env text of
             Some t \<Rightarrow> toISOString t
           | None \<Rightarrow>
               (case try_formats (zone env) text formats of
                  Some iso_text \<Rightarrow> iso_text
                | None \<Rightarrow>
                    (case Date_parse env text of
                       Some t \<Rightarrow> toISOString t
                     | None \<Rightarrow> text))))"

section \<open>Deadline Calculator (DeadlineCalculator.ts)\<close>

text \<open>The argument is \<^verbatim>\<open>string | Date | null | undefined\<close>.\<close>

datatype deadline_arg =
    DeadlineUndefined
  | DeadlineNull
  | DeadlineString jsstring
  | DeadlineDate "int option"

text \<open>
  \<open>now\<close> is the time value \<^verbatim>\<open>new Date()\<close> reads from the clock. The result is \<open>None\<close>
  for \<^verbatim>\<open>null\<close>. Nothing in the \<^verbatim>\<open>try\<close> block throws. A local midnight that falls
  outside the range of time values is an invalid date, its \<^verbatim>\<open>getTime()\<close> is \<open>NaN\<close>, and
  so is the result then. \<^verbatim>\<open>Math.ceil\<close> of the exact quotient is taken.
\<close>

definition daysUntil :: "date_platform \<Rightarrow> int \<Rightarrow> deadline_arg \<Rightarrow> jsnum option" where
  "daysUntil env now deadline =
     (let parsed =
            (case deadline of
               DeadlineUndefined \<Rightarrow> None
             | DeadlineNull \<Rightarrow> None
             | DeadlineString text \<Rightarrow> if text = [] then None else Date_parse env text
             | DeadlineDate d \<Rightarrow> d)
      in case parsed of
           None \<Rightarrow> None
         | Some deadlineDate \<Rightarrow>
             (let tz = zone env;
                  nowMidnight = new_Date_ymd tz (getFullYear tz now) (getMonth tz now) (getDate tz now);
                  deadlineMidnight =
                    new_Date_ymd tz (getFullYear tz deadlineDate) (getMonth tz deadlineDate)
                      (getDate tz deadlineDate)
              in case (deadlineMidnight, nowMidnight) of
                   (Some d, Some n) \<Rightarrow> Some (Num (of_int \<lceil>real_of_int (d - n) / 86400000\<rceil>))
                 | _ \<Rightarrow> Some NaN))"

definition isWithinDays :: "date_platform \<Rightarrow> int \<Rightarrow> deadline_arg \<Rightarrow> jsnum \<Rightarrow> bool" where
  "isWithinDays env now deadline days =
     (case daysUntil env now deadline of
        None \<Rightarrow> False
      | Some daysUntilDeadline \<Rightarrow> js_ge daysUntilDeadline (Num 0) \<and> js_le daysUntilDeadline days)"

text \<open>
  The calendar date of a time value in the local zone, as \<^verbatim>\<open>getFullYear()\<close>,
  \<^verbatim>\<open>getMonth()\<close> and \<^verbatim>\<open>getDate()\<close> give it, and the order of calendar dates: a deadline
  is in the past when its date is before today's.
\<close>

definition local_date :: "timezone \<Rightarrow> int \<Rightarrow> int \<times> int \<times> int" where
  "local_date tz t = (getFullYear tz t, getMonth tz t, getDate tz t)"

fun date_before :: "int \<times> int \<times> int \<Rightarrow> int \<times> int \<times> int \<Rightarrow> bool" where
  "date_before (y, m, d) (y', m', d') = (y < y' \<or> (y = y' \<and> (m < m' \<or> (m = m' \<and> d < d'))))"

text \<open>
  A platform in the zone of New York around 10 March 2024: the offset is five hours
  behind UTC until 07:00 UTC of that day, which is 02:00 local time, and four hours from
  then on, so that 10 March has 23 hours. No text is parsed in the examples.
\<close>

definition new_york_platform :: date_platform where
  "new_york_platform =
     \<lparr> parseISO = (\<lambda>s. None), Date_parse = (\<lambda>s. None),
       zone = \<lparr> offset_at_utc = (\<lambda>t. if t < 1710054000000 then - 18000000 else - 14400000),
                offset_at_local = (\<lambda>t. if t < 1710036000000 then - 18000000 else - 14400000) \<rparr> \<rparr>"

datatype UrgencyCategory = urgent | soon | later | none

definition categorizeUrgency :: "date_platform \<Rightarrow> int \<Rightarrow> deadline_arg \<Rightarrow> UrgencyCategory" where
  "categorizeUrgency env now deadline =
     (case daysUntil env now deadline of
        None \<Rightarrow> none
      | Some daysUntilDeadline \<Rightarrow>
          if js_lt daysUntilDeadline (Num 0) then none
          else if js_le daysUntilDeadline (Num 30) then urgent
          else if js_le daysUntilDeadline (Num 60) then soon
          else if js_le daysUntilDeadline (Num 90) then later
          else none)"

section \<open>Validator (ScholarshipValidator.ts, validation-schema.ts)\<close>

text \<open>
  The validator reads the fields of a record by name, \<^verbatim>\<open>scholarship[field]\<close>, and tests
  them against \<^verbatim>\<open>undefined\<close>, \<^verbatim>\<open>null\<close> and the empty string: a record is a function from
  property names to values, and the values of a scholarship's fields are strings and
  arrays of strings.
\<close>

datatype jsval = Undefined | Null | Str jsstring | Arr "jsstring list"

type_synonym scholarship_obj = "jsstring \<Rightarrow> jsval"

text \<open>\<^verbatim>\<open>String(value)\<close>; an array is joined with commas.\<close>

fun to_String :: "jsval \<Rightarrow> jsstring" where
  "to_String Undefined = js ''undefined''"
| "to_String Null = js ''null''"
| "to_String (Str s) = s"
| "to_String (Arr xs) = join (js '','') xs"

text \<open>A number in a template literal (for numbers below \<open>10 ^ 16\<close>).\<close>

definition decimal :: "nat \<Rightarrow> jsstring" where
  "decimal n = (if n = 0 then js ''0'' else dropWhile (\<lambda>c. c = 48) (pad 16 n))"

record constraint =
  minLength :: "nat option"
  maxLength :: "nat option"
  pattern :: "rx option"

definition schema_required :: "jsstring list" where
  "schema_required = [js ''name'', js ''source'', js ''link'']"

definition schema_optional :: "jsstring list" where
  "schema_optional =
     [js ''country'', js ''degree'', js ''deadline'', js ''description'', js ''eligibility'',
      js ''amount'']"

text \<open>\<^verbatim>\<open>/^https?:\/\/.+/\<close>; the dot matches any code unit but a line terminator.\<close>

definition link_pattern :: rx where
  "link_pattern =
     Seqs [Bol, Lit ''http'', Opt (Chr CHR ''s''), Lit ''://'',
           Plus (Cls (\<lambda>c. \<not> is_line_terminator c))]"

definition schema_constraints :: "(jsstring \<times> constraint) list" where
  "schema_constraints =
     [(js ''name'', \<lparr>minLength = Some 3, maxLength = Some 500, pattern = None\<rparr>),
      (js ''source'', \<lparr>minLength = Some 2, maxLength = Some 100, pattern = None\<rparr>),
      (js ''link'', \<lparr>minLength = None, maxLength = None, pattern = Some link_pattern\<rparr>),
      (js ''description'', \<lparr>minLength = None, maxLength = Some 5000, pattern = None\<rparr>),
      (js ''eligibility'', \<lparr>minLength = None, maxLength = Some 3000, pattern = None\<rparr>),
      (js ''amount'', \<lparr>minLength = None, maxLength = Some 200, pattern = None\<rparr>),
      (js ''country'', \<lparr>minLength = None, maxLength = Some 200, pattern = None\<rparr>),
      (js ''degree'', \<lparr>minLength = None, maxLength = Some 200, pattern = None\<rparr>)]"

datatype severity = critical | major | minor

record ValidationError =
  field :: jsstring
  message :: jsstring
  severity :: severity

record ValidationWarning =
  w_field :: jsstring
  w_message :: jsstring
  suggestion :: "jsstring option"

record ValidationResult =
  isValid :: bool
  errors :: "ValidationError list"
  warnings :: "ValidationWarning list"

text \<open>A field name between single quotes, as the messages have it.\<close>

definition quoted :: "jsstring \<Rightarrow> jsstring" where
  "quoted f = [39] @ f @ [39]"

text \<open>
  \<^verbatim>\<open>validateFieldConstraints\<close> pushes onto the two arrays it is given; here it takes and
  returns them. It is called with the field names of the schema only.
\<close>

definition validateFieldConstraints ::
  "jsstring \<Rightarrow> jsval \<Rightarrow> ValidationError list \<times> ValidationWarning list
     \<Rightarrow> ValidationError list \<times> ValidationWarning list" where
  "validateFieldConstraints f v acc =
     (case map_of schema_constraints f of
        None \<Rightarrow> acc
      | Some constraints \<Rightarrow>
          (let stringValue = (case v of Str s \<Rightarrow> s | _ \<Rightarrow> to_String v);
               errs1 =
                 (case minLength constraints of
                    Some m \<Rightarrow>
                      if length stringValue < m then
                        fst acc @ [\<lparr>field = f,
                                    message = js ''Field '' @ quoted f @ js '' must be at least ''
                                              @ decimal m @ js '' characters'',
                                    severity = major\<rparr>]
                      else fst acc
                  | None \<Rightarrow> fst acc);
               warns1 =
                 (case maxLength constraints of
                    Some m \<Rightarrow>
                      if length stringValue > m then
                        snd acc @ [\<lparr>w_field = f,
                                    w_message = js ''Field '' @ quoted f
                                                @ js '' exceeds maximum length of '' @ decimal m
                                                @ js '' characters'',
                                    suggestion = Some (js ''Value will be truncated'')\<rparr>]
                      else snd acc
                  | None \<Rightarrow> snd acc);
               errs2 =
                 (case pattern constraints of
                    Some r \<Rightarrow>
                      if \<not> rx_test r stringValue then
                        errs1 @ [\<lparr>field = f,
                                  message = js ''Field '' @ quoted f
                                            @ js '' does not match required pattern'',
                                  severity = major\<rparr>]
                      else errs1
                  | None \<Rightarrow> errs1)
           in (errs2, warns1)))"

text \<open>\<^verbatim>\<open>value === undefined || value === null || value === ''\<close>\<close>

definition is_missing :: "jsval \<Rightarrow> bool" where
  "is_missing v = (v = Undefined \<or> v = Null \<or> v = Str [])"

definition check_required ::
  "scholarship_obj \<Rightarrow> ValidationError list \<times> ValidationWarning list \<Rightarrow> jsstring
     \<Rightarrow> ValidationError list \<times> ValidationWarning list" where
  "check_required scholarship acc f =
     (let v = scholarship f in
      if is_missing v then
        (fst acc @ [\<lparr>field = f,
                     message = js ''Required field '' @ quoted f @ js '' is missing or empty'',
                     severity = critical\<rparr>],
         snd acc)
      else validateFieldConstraints f v acc)"

definition check_optional ::
  "scholarship_obj \<Rightarrow> ValidationError list \<times> ValidationWarning list \<Rightarrow> jsstring
     \<Rightarrow> ValidationError list \<times> ValidationWarning list" where
  "check_optional scholarship acc f =
     (let v = scholarship f in
      if \<not> is_missing v then validateFieldConstraints f v acc else acc)"

definition validate :: "scholarship_obj \<Rightarrow> ValidationResult" where
  "validate scholarship =
     (let after_required = foldl (check_required scholarship) ([], []) schema_required;
          after_optional = foldl (check_optional scholarship) after_required schema_optional
      in \<lparr> isValid = (length (fst after_optional) = 0),
           errors = fst after_optional,
           warnings = snd after_optional \<rparr>)"

text \<open>
  What the specification says about one field \<open>f\<close> of a record. A required field that
  is missing or empty gets one critical error and nothing else. A field that is present
  gets a major error when it is shorter than its minimum length, a major error when it
  does not match its pattern, and a warning, never an error, when it is longer than its
  maximum length. An optional field that is missing gets nothing.
\<close>

definition stringValue_of :: "jsval \<Rightarrow> jsstring" where
  "stringValue_of v = (case v of Str s \<Rightarrow> s | _ \<Rightarrow> to_String v)"

definition required_error :: "jsstring \<Rightarrow> ValidationError" where
  "required_error f =
     \<lparr>field = f, message = js ''Required field '' @ quoted f @ js '' is missing or empty'',
      severity = critical\<rparr>"

definition minLength_error :: "jsstring \<Rightarrow> nat \<Rightarrow> ValidationError" where
  "minLength_error f m =
     \<lparr>field = f,
      message = js ''Field '' @ quoted f @ js '' must be at least '' @ decimal m @ js '' characters'',
      severity = major\<rparr>"

definition pattern_error :: "jsstring \<Rightarrow> ValidationError" where
  "pattern_error f =
     \<lparr>field = f, message = js ''Field '' @ quoted f @ js '' does not match required pattern'',
      severity = major\<rparr>"

definition maxLength_warning :: "jsstring \<Rightarrow> nat \<Rightarrow> ValidationWarning" where
  "maxLength_warning f m =
     \<lparr>w_field = f,
      w_message = js ''Field '' @ quoted f @ js '' exceeds maximum length of '' @ decimal m
                  @ js '' characters'',
      suggestion = Some (js ''Value will be truncated'')\<rparr>"

definition constraint_errors :: "jsstring \<Rightarrow> jsval \<Rightarrow> ValidationError list" where
  "constraint_errors f v =
     (case map_of schema_constraints f of
        None \<Rightarrow> []
      | Some c \<Rightarrow>
          (case minLength c of
             Some m \<Rightarrow> if length (stringValue_of v) < m then [minLength_error f m] else []
           | None \<Rightarrow> [])
          @ (case pattern c of
               Some r \<Rightarrow> if \<not> rx_test r (stringValue_of v) then [pattern_error f] else []
             | None \<Rightarrow> []))"

definition constraint_warnings :: "jsstring \<Rightarrow> jsval \<Rightarrow> ValidationWarning list" where
  "constraint_warnings f v =
     (case map_of schema_constraints f of
        None \<Rightarrow> []
      | Some c \<Rightarrow>
          (case maxLength c of
             Some m \<Rightarrow> if length (stringValue_of v) > m then [maxLength_warning f m] else []
           | None \<Rightarrow> []))"

definition expected_errors :: "scholarship_obj \<Rightarrow> jsstring \<Rightarrow> ValidationError list" where
  "expected_errors scholarship f =
     (if is_missing (scholarship f) then
        (if f \<in> set schema_required then [required_error f] else [])
      else constraint_errors f (scholarship f))"

definition expected_warnings :: "scholarship_obj \<Rightarrow> jsstring \<Rightarrow> ValidationWarning list" where
  "expected_warnings scholarship f =
     (if is_missing (scholarship f) then [] else constraint_warnings f (scholarship f))"

section \<open>Rate Limiter (RateLimiter.ts)\<close>

text \<open>
  Times are in milliseconds. The rate is positive. The queue holds resolvers of waiting
  callers; nothing in the class ever adds one.
\<close>

record RateLimiter =
  requestsPerSecond :: real
  interval :: real
  lastRequestTime :: real
  queue :: "nat list"

definition new_RateLimiter :: "real \<Rightarrow> RateLimiter" where
  "new_RateLimiter rps =
     \<lparr> requestsPerSecond = rps, interval = 1000 / rps, lastRequestTime = 0, queue = [] \<rparr>"

text \<open>
  \<^verbatim>\<open>waitForSlot\<close>, called when the clock reads \<open>now\<close>. The body of the promise runs at
  once: either the slot is granted, and the timestamp recorded, or a timer is scheduled
  with \<^verbatim>\<open>setTimeout\<close> and the limiter is left as it is. When that timer fires, its
  callback records the clock's reading and grants the slot.
\<close>

datatype slot = Granted | Scheduled real

definition waitForSlot :: "real \<Rightarrow> RateLimiter \<Rightarrow> slot \<times> RateLimiter" where
  "waitForSlot now this =
     (let timeSinceLastRequest = now - lastRequestTime this;
          timeToWait = max 0 (interval this - timeSinceLastRequest)
      in if timeToWait = 0 then (Granted, this\<lparr>lastRequestTime := now\<rparr>)
         else (Scheduled timeToWait, this))"

definition timer_callback :: "real \<Rightarrow> RateLimiter \<Rightarrow> RateLimiter" where
  "timer_callback now this = this\<lparr>lastRequestTime := now\<rparr>"

definition processQueue :: "RateLimiter \<Rightarrow> RateLimiter" where
  "processQueue this = (case queue this of [] \<Rightarrow> this | n # waiting \<Rightarrow> this\<lparr>queue := waiting\<rparr>)"

text \<open>
  The event loop around one limiter, with an exact clock and timers that fire exactly
  when due, in the order of their due times and, among equal ones, of their scheduling.
  The state holds the limiter, the pending timers (due time and caller) in firing order,
  and for each caller whose slot was granted the time its operation began. The
  operation begins when the slot is granted; what it does and how long it takes has no
  effect on the limiter, as \<^verbatim>\<open>processQueue\<close> finds the queue empty.
\<close>

record loop_state =
  limiter :: RateLimiter
  timers :: "(real \<times> nat) list"
  begun :: "(nat \<times> real) list"

fun insert_timer :: "real \<times> nat \<Rightarrow> (real \<times> nat) list \<Rightarrow> (real \<times> nat) list" where
  "insert_timer t [] = [t]"
| "insert_timer t (u # us) = (if fst t < fst u then t # u # us else u # insert_timer t us)"

text \<open>Firing, in order, the pending timers that are due by time \<open>now\<close>.\<close>

fun fire_due :: "real \<Rightarrow> (real \<times> nat) list \<Rightarrow> RateLimiter \<times> (nat \<times> real) list
                  \<Rightarrow> (real \<times> nat) list \<times> RateLimiter \<times> (nat \<times> real) list" where
  "fire_due now [] (rl, started) = ([], rl, started)"
| "fire_due now ((due, caller) # pending) (rl, started) =
     (if due \<le> now then
        fire_due now pending (timer_callback due rl, started @ [(caller, due)])
      else ((due, caller) # pending, rl, started))"

text \<open>A call of \<^verbatim>\<open>throttle\<close> by \<open>caller\<close> when the clock reads \<open>now\<close>.\<close>

definition call_throttle :: "real \<Rightarrow> nat \<Rightarrow> loop_state \<Rightarrow> loop_state" where
  "call_throttle now caller st =
     (case fire_due now (timers st) (limiter st, begun st) of
        (pending, rl, started) \<Rightarrow>
          (case waitForSlot now rl of
             (Granted, rl') \<Rightarrow>
               \<lparr> limiter = rl', timers = pending, begun = started @ [(caller, now)] \<rparr>
           | (Scheduled timeToWait, rl') \<Rightarrow>
               \<lparr> limiter = rl', timers = insert_timer (now + timeToWait, caller) pending,
                 begun = started \<rparr>))"

text \<open>
  A run: the calls, given by time and caller in the order they are made, and then the
  timers that are still pending.
\<close>

fun run_calls :: "(real \<times> nat) list \<Rightarrow> loop_state \<Rightarrow> loop_state" where
  "run_calls [] st =
     (case timers st of
        [] \<Rightarrow> st
      | pending \<Rightarrow>
          (case fire_due (fst (last pending)) pending (limiter st, begun st) of
             (rest, rl, started) \<Rightarrow> \<lparr> limiter = rl, timers = rest, begun = started \<rparr>))"
| "run_calls ((now, caller) # calls) st = run_calls calls (call_throttle now caller st)"

definition fresh_loop :: "real \<Rightarrow> loop_state" where
  "fresh_loop rps = \<lparr> limiter = new_RateLimiter rps, timers = [], begun = [] \<rparr>"

section \<open>Properties of the Retry Handler\<close>




lemma retry_loop_fst:
  "a \<le> r \<Longrightarrow> fst (retry_loop fn r b m obs le a) =
     (case find (\<lambda>k. \<not> isl (fn k)) [a..<Suc r] of
        Some k \<Rightarrow> Inr (projr (fn k))
      | None \<Rightarrow> Inl (Some (projl (fn r))))"
proof (induction "r - a" arbitrary: a le)
  case 0
  then have "a = r" by simp
  then show ?case by (subst retry_loop.simps) (simp split: sum.splits)
next
  case (Suc d)
  then have lt: "a < r" by simp
  have ih: "fst (retry_loop fn r b m obs (Some e') (Suc a)) =
     (case find (\<lambda>k. \<not> isl (fn k)) [Suc a..<Suc r] of
        Some k \<Rightarrow> Inr (projr (fn k))
      | None \<Rightarrow> Inl (Some (projl (fn r))))" for e'
    using Suc by (intro Suc.hyps(1)) auto
  have "[a..<Suc r] = a # [Suc a..<Suc r]" using lt by (simp add: upt_conv_Cons)
  then show ?case using lt ih
    by (subst retry_loop.simps) (simp add: Let_def split: sum.splits)
qed



section \<open>Properties of the Scraper Orchestrator\<close>

lemma fst_executeWithRetry:
  "fst (executeWithRetry h fn
          \<lparr> opt_retries = Some r, opt_baseDelay = Some b, opt_maxDelay = Some m, opt_onRetry = obs \<rparr>) =
     (if exhausts r fn then Inl (Some (projl (fn r))) else Inr (the (first_success r fn)))"
proof -
  have "fst (retry_loop fn r b m obs None 0) =
     (case find (\<lambda>k. \<not> isl (fn k)) [0..<Suc r] of
        Some k \<Rightarrow> Inr (projr (fn k))
      | None \<Rightarrow> Inl (Some (projl (fn r))))"
    by (rule retry_loop_fst) simp
  moreover have "exhausts r fn \<longleftrightarrow> find (\<lambda>k. \<not> isl (fn k)) [0..<Suc r] = None"
    unfolding exhausts_def list_all_iff find_None_iff by blast
  ultimately show ?thesis
    by (auto simp: executeWithRetry_def nullish_def first_success_def split: option.splits)
qed

lemma scrapeSource_expected:
  "scrapeSource this s t = Inr (expected_result this s t)"
  unfolding scrapeSource_def fst_executeWithRetry expected_result_def
  by (simp add: Let_def)

lemma promise_all_Inr: "promise_all (map (\<lambda>x. Inr (f x)) xs) = Inr (map f xs)"
  by (induction xs) auto

lemma filter_enumerate_length:
  "(\<And>i s. P (g (i, s)) = Q s) \<Longrightarrow>
   length (filter P (map g (enumerate n xs))) = length (filter Q xs)"
  by (induction xs arbitrary: n) auto

lemma concat_enumerate_filter:
  "(\<And>i s. P (g (i, s)) = Q s) \<Longrightarrow> (\<And>i s. Q s \<Longrightarrow> h (g (i, s)) = k s) \<Longrightarrow>
   concat (map h (filter P (map g (enumerate n xs)))) = concat (map k (filter Q xs))"
  by (induction xs arbitrary: n) auto

lemma success_expected: "success (expected_result this s t) = (\<not> exhausts (retry_retries (retry (config this))) (scrape s))"
  by (simp add: expected_result_def Let_def)

lemma scholarships_expected:
  "\<not> exhausts (retry_retries (retry (config this))) (scrape s) \<Longrightarrow>
   scholarships (expected_result this s t) =
     map (normalizer this) (the (first_success (retry_retries (retry (config this))) (scrape s)))"
  by (simp add: expected_result_def Let_def)

text \<open>
  Claim C1. Whatever the extractors do, \<^verbatim>\<open>scrapeAll\<close> returns a summary (no exception
  escapes). Its result list has one entry per extractor, in submission order, each as
  \<open>expected_result\<close> describes: an extractor that exhausts its retries gives
  \<^verbatim>\<open>success = false\<close> with the message of its last error, any other gives its
  normalized records. With \<open>N\<close> extractors of which \<open>K\<close> exhaust their retries,
  \<^verbatim>\<open>failedSources\<close> is \<open>K\<close> and \<^verbatim>\<open>successfulSources\<close> is \<open>N - K\<close>, and
  \<^verbatim>\<open>getScholarships\<close> returns the records of the \<open>N - K\<close> other extractors only, in
  submission order and, within one source, in extraction order.
\<close>

theorem scrapeAll_partial_failure:
  fixes this :: "('raw, 'rec) ScraperOrchestrator"
  shows "\<exists>summary.
      scrapeAll this elapsed wall = Inr summary
    \<and> results summary =
        map (\<lambda>(i, s). expected_result this s (elapsed i)) (enumerate 0 (scrapers this))
    \<and> failedSources summary =
        length (filter (\<lambda>s. exhausts (retry_retries (retry (config this))) (scrape s)) (scrapers this))
    \<and> successfulSources summary =
        length (scrapers this)
        - length (filter (\<lambda>s. exhausts (retry_retries (retry (config this))) (scrape s)) (scrapers this))
    \<and> getScholarships summary =
        concat (map (\<lambda>s. map (normalizer this)
                            (the (first_success (retry_retries (retry (config this))) (scrape s))))
                    (filter (\<lambda>s. \<not> exhausts (retry_retries (retry (config this))) (scrape s))
                            (scrapers this)))"
proof -
  let ?r = "retry_retries (retry (config this))"
  let ?g = "\<lambda>(i, s). expected_result this s (elapsed i)"
  let ?rs = "map ?g (enumerate 0 (scrapers this))"
  have pa: "promise_all (map (\<lambda>(i, scraper). scrapeSource this scraper (elapsed i))
                            (enumerate 0 (scrapers this))) = Inr ?rs"
    using promise_all_Inr[of ?g "enumerate 0 (scrapers this)"]
    by (simp add: scrapeSource_expected case_prod_unfold)
  have f: "length (filter (\<lambda>r. \<not> success r) ?rs) = length (filter (\<lambda>s. exhausts ?r (scrape s)) (scrapers this))"
    by (rule filter_enumerate_length) (simp add: success_expected)
  have s: "length (filter success ?rs) = length (filter (\<lambda>s. \<not> exhausts ?r (scrape s)) (scrapers this))"
    by (rule filter_enumerate_length) (simp add: success_expected)
  have n: "length (filter (\<lambda>s. \<not> exhausts ?r (scrape s)) (scrapers this))
        = length (scrapers this) - length (filter (\<lambda>s. exhausts ?r (scrape s)) (scrapers this))"
    using sum_length_filter_compl[of "\<lambda>s. exhausts ?r (scrape s)" "scrapers this"] by simp
  have g: "concat (map scholarships (filter success ?rs)) =
        concat (map (\<lambda>s. map (normalizer this) (the (first_success ?r (scrape s))))
                    (filter (\<lambda>s. \<not> exhausts ?r (scrape s)) (scrapers this)))"
    by (rule concat_enumerate_filter) (simp_all add: success_expected scholarships_expected)
  show ?thesis
    using f s n g by (simp add: scrapeAll_def pa Let_def getScholarships_def)
qed

theorem scrapeAll_partial_failure_witness:
  "\<exists>summary.
     scrapeAll
       (new_ScraperOrchestrator
          \<lparr>concurrency = 2, retry = \<lparr>retry_retries = 3, retry_baseDelay = 1000, retry_maxDelay = 10000\<rparr>\<rparr>
          [\<lparr>name = js ''A'', scrape = (\<lambda>k. Inr [1, 2])\<rparr>,
           \<lparr>name = js ''B'', scrape = (\<lambda>k. Inl (Error (js ''Error'') (js ''HTTP 500'')))\<rparr>,
           \<lparr>name = js ''C'', scrape = (\<lambda>k. if k < 3 then Inl (Error (js ''Error'') (js ''timeout'')) else Inr [3])\<rparr>]
          (\<lambda>raw::nat. 10 * raw))
       (\<lambda>i. 5) 9 = Inr summary
     \<and> failedSources summary = 1 \<and> successfulSources summary = 2
     \<and> getScholarships summary = [10, 20, 30]"
proof -
  let ?A = "\<lparr>name = js ''A'', scrape = (\<lambda>k::nat. Inr [1, 2] :: js_error + nat list)\<rparr>"
  let ?B = "\<lparr>name = js ''B'', scrape = (\<lambda>k::nat. Inl (Error (js ''Error'') (js ''HTTP 500'')) :: js_error + nat list)\<rparr>"
  let ?C = "\<lparr>name = js ''C'', scrape = (\<lambda>k::nat. if k < 3 then Inl (Error (js ''Error'') (js ''timeout'')) else Inr [3::nat])\<rparr>"
  let ?orch = "new_ScraperOrchestrator
          \<lparr>concurrency = 2, retry = \<lparr>retry_retries = 3, retry_baseDelay = 1000, retry_maxDelay = 10000\<rparr>\<rparr>
          [?A, ?B, ?C] (\<lambda>raw::nat. 10 * raw)"
  have a: "\<not> exhausts 3 (scrape ?A)" "first_success 3 (scrape ?A) = Some [1, 2]"
    by (simp_all add: exhausts_def first_success_def upt_rec)
  have b: "exhausts 3 (scrape ?B)"
    by (simp add: exhausts_def upt_rec)
  have c: "\<not> exhausts 3 (scrape ?C)" "first_success 3 (scrape ?C) = Some [3]"
    by (simp_all add: exhausts_def first_success_def upt_rec)
  have o: "scrapers ?orch = [?A, ?B, ?C]" "retry_retries (retry (config ?orch)) = 3"
    "normalizer ?orch = (\<lambda>raw. 10 * raw)"
    by (simp_all add: new_ScraperOrchestrator_def)
  from scrapeAll_partial_failure[of ?orch "\<lambda>i. 5" 9]
  obtain summary where s: "scrapeAll ?orch (\<lambda>i. 5) 9 = Inr summary"
    and f: "failedSources summary =
        length (filter (\<lambda>s. exhausts (retry_retries (retry (config ?orch))) (scrape s)) (scrapers ?orch))"
    and n: "successfulSources summary =
        length (scrapers ?orch)
        - length (filter (\<lambda>s. exhausts (retry_retries (retry (config ?orch))) (scrape s)) (scrapers ?orch))"
    and g: "getScholarships summary =
        concat (map (\<lambda>s. map (normalizer ?orch)
                            (the (first_success (retry_retries (retry (config ?orch))) (scrape s))))
                    (filter (\<lambda>s. \<not> exhausts (retry_retries (retry (config ?orch))) (scrape s))
                            (scrapers ?orch)))"
    by blast
  have "failedSources summary = 1" unfolding f o using a b c by simp
  moreover have "successfulSources summary = 2" unfolding n o using a b c by simp
  moreover have "getScholarships summary = [10, 20, 30]" unfolding g o using a b c by simp
  ultimately show ?thesis using s by blast
qed

text \<open>
  Claim C10. An orchestrator constructed with no extractors still returns a summary, with
  no results and zero records, and its success rate is \<^verbatim>\<open>(0 / 0) * 100\<close>, which is
  \<open>NaN\<close> and so no percentage between 0 and 100.
\<close>

theorem scrapeAll_no_sources:
  "scrapeAll (new_ScraperOrchestrator cfg [] normalize_fn) elapsed wall =
     Inr \<lparr> totalScholarships = 0, successfulSources = 0, failedSources = 0,
           totalProcessingTime = wall, successRate = NaN, results = [] \<rparr>
   \<and> \<not> (\<exists>p. 0 \<le> p \<and> p \<le> 100 \<and>
          Inr \<lparr> totalScholarships = 0, successfulSources = 0, failedSources = 0,
                totalProcessingTime = wall, successRate = Num p, results = [] \<rparr>
            = scrapeAll (new_ScraperOrchestrator cfg [] normalize_fn) elapsed wall)"
  by (simp add: scrapeAll_def new_ScraperOrchestrator_def enumerate_eq_zip js_div_def js_times_def)

section \<open>Properties of the Amount Parser\<close>






















section \<open>Properties of the Data Normalizer\<close>

subsection \<open>Links\<close>

lemma trim_empty: "trim [] = []" by (simp add: trim_def)
lemma trim_sp_http: "trim (js '' http://'') = js ''http://''"
  by (simp add: trim_def js_def is_space_def)

text \<open>
  Claim C7 says that the string is validated after the prefix has been added, and that a
  failed validation returns the trimmed, possibly prefixed string with a warning. The
  code differs in two places. For the empty string the outcome \<^verbatim>\<open>https://\<close> is not a
  well-formed URL, yet it is returned without validation and nothing is logged. For
  \<^verbatim>\<open>" http://"\<close> validation fails and the original argument, with its leading blank, is
  returned, not the trimmed string.
\<close>

theorem normalizeURL_counterexample:
  "normalizeURL rejects_missing_host [] \<noteq> spec_normalizeURL rejects_missing_host []
   \<and> normalizeURL rejects_missing_host (js '' http://'') \<noteq> spec_normalizeURL rejects_missing_host (js '' http://'')"
proof -
  have 1: "normalizeURL rejects_missing_host [] = (js ''https://'', [])"
    by (simp add: normalizeURL_def normalizeURL_try_def trim_empty js_def Let_def)
  have 2: "snd (spec_normalizeURL rejects_missing_host []) \<noteq> []"
    by (simp add: spec_normalizeURL_def trim_empty rejects_missing_host_def js_def Let_def)
  have 3: "fst (normalizeURL rejects_missing_host (js '' http://'')) = js '' http://''"
    unfolding normalizeURL_def normalizeURL_try_def trim_sp_http
    by (simp add: new_URL_def rejects_missing_host_def js_def Let_def)
  have 4: "fst (spec_normalizeURL rejects_missing_host (js '' http://'')) = js ''http://''"
    unfolding spec_normalizeURL_def trim_sp_http
    by (simp add: rejects_missing_host_def js_def Let_def)
  have 5: "js '' http://'' \<noteq> js ''http://''" by (simp add: js_def)
  show ?thesis using 1 2 3 4 5 by (metis snd_conv)
qed

text \<open>
  Claim C7 as the code has it. \<^verbatim>\<open>normalizeURL\<close> trims the string. When the trimmed
  string lacks an \<^verbatim>\<open>http://\<close> or \<^verbatim>\<open>https://\<close> prefix, it returns \<^verbatim>\<open>https://\<close> followed by
  the trimmed string, unvalidated and with no log line. Otherwise it validates the trimmed
  string: when well-formed, that is returned; when not, a warning is logged and the
  original, untrimmed argument is returned. The function is total: the \<^verbatim>\<open>TypeError\<close> of
  \<^verbatim>\<open>new URL\<close> is caught inside it.
\<close>

theorem normalizeURL_behaviour:
  "(\<not> startsWith (trim url) (js ''http://'') \<and> \<not> startsWith (trim url) (js ''https://'') \<longrightarrow>
      normalizeURL url_ok url = (js ''https://'' @ trim url, []))
   \<and> ((startsWith (trim url) (js ''http://'') \<or> startsWith (trim url) (js ''https://'')) \<and> url_ok (trim url) \<longrightarrow>
      normalizeURL url_ok url = (trim url, []))
   \<and> ((startsWith (trim url) (js ''http://'') \<or> startsWith (trim url) (js ''https://'')) \<and> \<not> url_ok (trim url) \<longrightarrow>
      normalizeURL url_ok url = (url, [Warn (js ''Invalid URL: '' @ url)]))"
  by (auto simp: normalizeURL_def normalizeURL_try_def new_URL_def Let_def)

theorem normalizeURL_behaviour_witness:
  "normalizeURL rejects_missing_host (js '' example.org '') = (js ''https://example.org'', [])
   \<and> normalizeURL rejects_missing_host (js '' https://example.org'') = (js ''https://example.org'', [])
   \<and> normalizeURL rejects_missing_host (js '' http://'')
       = (js '' http://'', [Warn (js ''Invalid URL:  http://'')])"
proof -
  have t1: "trim (js '' example.org '') = js ''example.org''"
    by (simp add: trim_def js_def is_space_def)
  have t2: "trim (js '' https://example.org'') = js ''https://example.org''"
    by (simp add: trim_def js_def is_space_def)
  have p1: "\<not> startsWith (js ''example.org'') (js ''http://'')
            \<and> \<not> startsWith (js ''example.org'') (js ''https://'')"
    by (simp add: js_def)
  have p2: "startsWith (js ''https://example.org'') (js ''https://'')
            \<and> rejects_missing_host (js ''https://example.org'')"
    by (simp add: js_def rejects_missing_host_def)
  have p3: "startsWith (js ''http://'') (js ''http://'') \<and> \<not> rejects_missing_host (js ''http://'')"
    by (simp add: js_def rejects_missing_host_def)
  have a: "normalizeURL rejects_missing_host (js '' example.org '') = (js ''https://example.org'', [])"
    using normalizeURL_behaviour[of "js '' example.org ''" rejects_missing_host] p1
    unfolding t1 by (simp add: js_def)
  have b: "normalizeURL rejects_missing_host (js '' https://example.org'') = (js ''https://example.org'', [])"
    using normalizeURL_behaviour[of "js '' https://example.org''" rejects_missing_host] p2
    unfolding t2 by simp
  have c: "normalizeURL rejects_missing_host (js '' http://'')
       = (js '' http://'', [Warn (js ''Invalid URL:  http://'')])"
    using normalizeURL_behaviour[of "js '' http://''" rejects_missing_host] p3
    unfolding trim_sp_http by (simp add: js_def)
  show ?thesis using a b c by simp
qed

subsection \<open>Deadlines\<close>

lemma Times_4: "Times 4 r = Seq r (Seq r (Seq r (Seq r Eps)))"
  by (simp add: numeral_eq_Suc)

lemma Between_1_2: "Between (Suc 0) 2 r = Seq (Seq r Eps) (Alt (Seq r Eps) Eps)"
  by (simp add: Between_def Opt_def numeral_eq_Suc)

lemma slash_text: "js ''31/12/2024'' = [51, 49, 47, 49, 50, 47, 50, 48, 50, 52]"
  by (simp add: js_def)

lemma slash_match:
  "rx_exec format_slash [51, 49, 47, 49, 50, 47, 50, 48, 50, 52]
   = Some [[51, 49, 47, 49, 50, 47, 50, 48, 50, 52], [51, 49], [49, 50], [50, 48, 50, 52]]"
  by (simp add: format_slash_def rx_exec_def rx_match_at_def Between_1_2 Times_4 digit_def Chr_def cu_def
      is_digit_def)


lemma js_slash: "js ''/'' = [47]" "js ''-'' = [45]"
  by (simp_all add: js_def)

lemma slash_numbers:
  "digits_value [50, 48, 50, 52] = 2024" "digits_value [51, 49] = 31" "digits_value [49, 50] = 12"
  by (simp_all add: digits_value_def)

lemma slash_day: "MakeDay 2024 30 12 * msPerDay = 1783814400000"
  by (simp add: MakeDay_def DayFromYear_def DaysBeforeMonth_def InLeapYear_def msPerDay_def)

lemma slash_no_dash:
  "rx_exec format_dash [51, 49, 47, 49, 50, 47, 50, 48, 50, 52] = None"
  "rx_exec format_year_first [51, 49, 47, 49, 50, 47, 50, 48, 50, 52] = None"
  by (simp_all add: format_dash_def format_year_first_def rx_exec_def rx_match_at_def Between_1_2
      Times_4 digit_def Chr_def cu_def is_digit_def)

lemma slash_try_formats:
  "try_formats tz (js ''31/12/2024'') formats =
     (case TimeClip (1783814400000 - offset_at_local tz 1783814400000) of
        Some t \<Rightarrow> Some (toISOString t)
      | None \<Rightarrow> None)"
proof -
  have d: "new_Date_ymd tz 2024 30 12 = TimeClip (1783814400000 - offset_at_local tz 1783814400000)"
    by (simp add: new_Date_ymd_def UTC_def slash_day)
  show ?thesis
    unfolding slash_text formats_def
    by (simp add: slash_match slash_numbers d slash_no_dash js_slash split: option.splits)
qed

lemma civil_2026: "civil_from_day 20646 = (2026, 6, 12)"
  unfolding civil_from_day_def Let_def by simp

lemma upt_small: "[0..<4] = [0, 1, 2, 3]" "[0..<2] = [0, 1]" "[0..<3] = [0, 1, 2]"
  by (simp_all add: upt_rec)

lemma pads_2026:
  "pad 4 2026 = js ''2026''" "pad 2 7 = js ''07''" "pad 2 12 = js ''12''"
  "pad 2 0 = js ''00''" "pad 3 0 = js ''000''"
  by (simp_all add: pad_def js_def upt_small)

lemma iso_2026: "toISOString 1783814400000 = js ''2026-07-12T00:00:00.000Z''"
  by (simp add: toISOString_def YearFromTime_def MonthFromTime_def DateFromTime_def Day_def
      TimeWithinDay_def msPerDay_def civil_2026 pads_2026) (simp add: js_def)

lemma normalizeDate_slash_general:
  assumes "parseISO env (js ''31/12/2024'') = None"
      and "\<bar>offset_at_local (zone env) 1783814400000\<bar> \<le> 86400000"
  shows "normalizeDate env (Inl (js ''31/12/2024'')) =
           toISOString (1783814400000 - offset_at_local (zone env) 1783814400000)"
proof -
  have "TimeClip (1783814400000 - offset_at_local (zone env) 1783814400000)
        = Some (1783814400000 - offset_at_local (zone env) 1783814400000)"
    using assms(2) by (simp add: TimeClip_def)
  then show ?thesis
    using assms(1) by (simp add: normalizeDate_def slash_try_formats)
qed

lemma normalizeDate_slash_utc:
  "normalizeDate utc_platform (Inl (js ''31/12/2024'')) = js ''2026-07-12T00:00:00.000Z''"
  using normalizeDate_slash_general[of utc_platform]
  by (simp add: utc_platform_def utc_zone_def iso_2026)

lemma month_first_text: "js ''12/31/2024'' = [49, 50, 47, 51, 49, 47, 50, 48, 50, 52]"
  by (simp add: js_def)

lemma month_first_match:
  "rx_exec format_slash [49, 50, 47, 51, 49, 47, 50, 48, 50, 52]
   = Some [[49, 50, 47, 51, 49, 47, 50, 48, 50, 52], [49, 50], [51, 49], [50, 48, 50, 52]]"
  by (simp add: format_slash_def rx_exec_def rx_match_at_def Between_1_2 Times_4 digit_def Chr_def cu_def
      is_digit_def)

lemma month_first_day: "MakeDay 2024 11 31 * msPerDay = 1735603200000"
  by (simp add: MakeDay_def DayFromYear_def DaysBeforeMonth_def InLeapYear_def msPerDay_def)

lemma month_first_try_formats:
  "try_formats tz (js ''12/31/2024'') formats =
     map_option toISOString (TimeClip (1735603200000 - offset_at_local tz 1735603200000))"
proof -
  have d: "new_Date_ymd tz 2024 11 31 = TimeClip (1735603200000 - offset_at_local tz 1735603200000)"
    by (simp add: new_Date_ymd_def UTC_def month_first_day)
  have no: "rx_exec format_dash [49, 50, 47, 51, 49, 47, 50, 48, 50, 52] = None"
     "rx_exec format_year_first [49, 50, 47, 51, 49, 47, 50, 48, 50, 52] = None"
    by (simp_all add: format_dash_def format_year_first_def rx_exec_def rx_match_at_def Between_1_2
      Times_4 digit_def Chr_def cu_def is_digit_def)
  have n: "digits_value [50, 48, 50, 52] = 2024" "digits_value [51, 49] = 31" "digits_value [49, 50] = 12"
    by (simp_all add: digits_value_def)
  have j: "js ''/'' = [47]" "js ''-'' = [45]" by (simp_all add: js_def)
  show ?thesis
    unfolding month_first_text formats_def
    by (simp add: month_first_match n d no j split: option.splits)
qed

lemma civil_2024_12_31: "civil_from_day 20088 = (2024, 11, 31)"
  unfolding civil_from_day_def Let_def by simp

lemma pads_2024:
  "pad 4 2024 = js ''2024''" "pad 2 12 = js ''12''" "pad 2 31 = js ''31''"
  "pad 2 0 = js ''00''" "pad 3 0 = js ''000''"
  by (simp_all add: pad_def js_def upt_small)

lemma iso_2024: "toISOString 1735603200000 = js ''2024-12-31T00:00:00.000Z''"
  by (simp add: toISOString_def YearFromTime_def MonthFromTime_def DateFromTime_def Day_def
      TimeWithinDay_def msPerDay_def civil_2024_12_31 pads_2024) (simp add: js_def)

lemma normalizeDate_month_first_general:
  assumes "parseISO env (js ''12/31/2024'') = None"
      and "\<bar>offset_at_local (zone env) 1735603200000\<bar> \<le> 86400000"
  shows "normalizeDate env (Inl (js ''12/31/2024'')) =
           toISOString (1735603200000 - offset_at_local (zone env) 1735603200000)"
proof -
  have "TimeClip (1735603200000 - offset_at_local (zone env) 1735603200000)
        = Some (1735603200000 - offset_at_local (zone env) 1735603200000)"
    using assms(2) by (simp add: TimeClip_def)
  then show ?thesis
    using assms(1) by (simp add: normalizeDate_def month_first_try_formats)
qed

text \<open>
  Claim C4 expects \<^verbatim>\<open>"2024-12-31T00:00:00.000Z"\<close> for \<^verbatim>\<open>"31/12/2024"\<close>. On a platform
  whose local zone is UTC, as that expected text presupposes, the code returns another
  text (that of 12 July 2026, lemma \<open>normalizeDate_slash_utc\<close>).
\<close>

theorem normalizeDate_slash_counterexample:
  "normalizeDate utc_platform (Inl (js ''31/12/2024'')) \<noteq> js ''2024-12-31T00:00:00.000Z''"
  unfolding normalizeDate_slash_utc by (simp add: js_def)

text \<open>
  Claim C4 as the code has it. \<^verbatim>\<open>"31/12/2024"\<close> is matched by the explicit pattern
  step, by the slash pattern, with the groups 31, 12 and 2024; a slash form is read as
  month/day/year, so the date is constructed from year 2024, month 31 (index 30) and day
  12, not as 31 December. It is the month-first text \<^verbatim>\<open>"12/31/2024"\<close> that gives
  31 December 2024: its first successful parse is emitted as full ISO-8601 under
  date-only, local-midnight interpretation, which for a zone offset \<open>o\<close> at that local
  time (of at most a day) is the text of the time value \<open>1735603200000 - o\<close>, and in the
  UTC zone \<^verbatim>\<open>"2024-12-31T00:00:00.000Z"\<close>.
\<close>

theorem normalizeDate_slash_month_first:
  assumes "parseISO env (js ''12/31/2024'') = None"
      and "\<bar>offset_at_local (zone env) 1735603200000\<bar> \<le> 86400000"
  shows "rx_exec (hd formats) (js ''31/12/2024'') = Some [js ''31/12/2024'', js ''31'', js ''12'', js ''2024'']
     \<and> try_formats (zone env) (js ''31/12/2024'') formats =
           map_option toISOString (new_Date_ymd (zone env) 2024 (31 - 1) 12)
     \<and> normalizeDate env (Inl (js ''12/31/2024'')) =
           toISOString (1735603200000 - offset_at_local (zone env) 1735603200000)
     \<and> (zone env = utc_zone \<longrightarrow>
           normalizeDate env (Inl (js ''12/31/2024'')) = js ''2024-12-31T00:00:00.000Z'')"
proof -
  have 1: "rx_exec (hd formats) (js ''31/12/2024'') = Some [js ''31/12/2024'', js ''31'', js ''12'', js ''2024'']"
    unfolding slash_text formats_def by (simp add: slash_match) (simp add: js_def)
  have d: "new_Date_ymd (zone env) 2024 30 12
      = TimeClip (1783814400000 - offset_at_local (zone env) 1783814400000)"
    by (simp add: new_Date_ymd_def UTC_def slash_day)
  have 2: "try_formats (zone env) (js ''31/12/2024'') formats =
           map_option toISOString (new_Date_ymd (zone env) 2024 (31 - 1) 12)"
    by (simp add: slash_try_formats d split: option.splits)
  have 3: "normalizeDate env (Inl (js ''12/31/2024'')) =
           toISOString (1735603200000 - offset_at_local (zone env) 1735603200000)"
    using assms by (rule normalizeDate_month_first_general)
  have 4: "normalizeDate env (Inl (js ''12/31/2024'')) = js ''2024-12-31T00:00:00.000Z''"
    if "zone env = utc_zone"
    using that by (simp add: 3 utc_zone_def iso_2024)
  show ?thesis using 1 2 3 4 by blast
qed

theorem normalizeDate_slash_month_first_witness:
  "parseISO utc_platform (js ''12/31/2024'') = None
   \<and> \<bar>offset_at_local (zone utc_platform) 1735603200000\<bar> \<le> 86400000
   \<and> zone utc_platform = utc_zone
   \<and> normalizeDate utc_platform (Inl (js ''12/31/2024'')) = js ''2024-12-31T00:00:00.000Z''"
proof -
  have a: "parseISO utc_platform (js ''12/31/2024'') = None" by (simp add: utc_platform_def)
  have b: "\<bar>offset_at_local (zone utc_platform) 1735603200000\<bar> \<le> 86400000"
    by (simp add: utc_platform_def utc_zone_def)
  have c: "zone utc_platform = utc_zone" by (simp add: utc_platform_def)
  show ?thesis using normalizeDate_slash_month_first[OF a b] a b c by blast
qed

subsection \<open>Degree levels\<close>

text \<open>
  The result of \<^verbatim>\<open>normalizeDegree\<close> never repeats a value, its values are the images of
  the fragments, and a fragment whose trimmed lower-case form is not the name of a member
  of \<^verbatim>\<open>Object.prototype\<close> is mapped as the specification says. The scenario text
  \<^verbatim>\<open>"MS/PhD"\<close> gives \<^verbatim>\<open>["Masters", "PhD"]\<close>.
\<close>

lemma set_of_array_aux:
  "distinct acc \<Longrightarrow>
   distinct (foldl (\<lambda>acc x. if x \<in> set acc then acc else acc @ [x]) acc xs)
   \<and> set (foldl (\<lambda>acc x. if x \<in> set acc then acc else acc @ [x]) acc xs) = set acc \<union> set xs"
  by (induction xs arbitrary: acc) auto

lemma set_of_array_distinct: "distinct (set_of_array xs)"
  using set_of_array_aux[of "[]" xs] by (simp add: set_of_array_def)

lemma set_of_array_set: "set (set_of_array xs) = set xs"
  using set_of_array_aux[of "[]" xs] by (simp add: set_of_array_def)

lemma normalizeDegree_distinct: "distinct (normalizeDegree d)"
  by (simp add: normalizeDegree_def Let_def set_of_array_distinct)

lemma normalizeDegree_set:
  "set (normalizeDegree d) =
     normalizeDegreeLevel ` (\<Union>s \<in> set (case d of Inl x \<Rightarrow> [x] | Inr xs \<Rightarrow> xs). set (splitDegrees s))"
  by (simp add: normalizeDegree_def Let_def set_of_array_set)

lemma normalizeDegreeLevel_spec:
  assumes "toLowerCase (trim f) \<notin> set object_prototype_keys"
  shows "normalizeDegreeLevel f = StrVal (spec_degree_level f)"
  using assms
  by (auto simp: normalizeDegreeLevel_def spec_degree_level_def get_property_def Let_def
      split: option.splits)

lemma normalizeDegree_spec:
  assumes "\<forall>s \<in> set (case d of Inl x \<Rightarrow> [x] | Inr xs \<Rightarrow> xs).
             \<forall>f \<in> set (splitDegrees s). toLowerCase (trim f) \<notin> set object_prototype_keys"
  shows "normalizeDegree d =
           set_of_array (map (\<lambda>f. StrVal (spec_degree_level f))
                             (concat (map splitDegrees (case d of Inl x \<Rightarrow> [x] | Inr xs \<Rightarrow> xs))))"
proof -
  have "map normalizeDegreeLevel (concat (map splitDegrees (case d of Inl x \<Rightarrow> [x] | Inr xs \<Rightarrow> xs)))
      = map (\<lambda>f. StrVal (spec_degree_level f))
            (concat (map splitDegrees (case d of Inl x \<Rightarrow> [x] | Inr xs \<Rightarrow> xs)))"
    using assms by (intro map_cong refl) (auto simp: normalizeDegreeLevel_spec)
  then show ?thesis unfolding normalizeDegree_def Let_def by (rule arg_cong)
qed

lemma split_ms_phd: "splitDegrees (js ''MS/PhD'') = [js ''MS'', js ''PhD'']"
  by (simp add: splitDegrees_def rx_split_def rx_match_at_def degreeSeparator_def js_def cu_def
      ChrI_def lower_ascii_def is_upper_ascii_def is_word_char_def is_digit_def is_lower_ascii_def
      trim_def is_space_def)

lemma level_ms: "normalizeDegreeLevel (js ''MS'') = StrVal (js ''Masters'')"
  by (simp add: normalizeDegreeLevel_def get_property_def degreeMapping_def js_def trim_def
      toLowerCase_def lower_ascii_def is_upper_ascii_def is_space_def)

lemma level_phd: "normalizeDegreeLevel (js ''PhD'') = StrVal (js ''PhD'')"
  by (simp add: normalizeDegreeLevel_def get_property_def degreeMapping_def js_def trim_def
      toLowerCase_def lower_ascii_def is_upper_ascii_def is_space_def)

lemma normalizeDegree_ms_phd:
  "normalizeDegree (Inl (js ''MS/PhD'')) = [StrVal (js ''Masters''), StrVal (js ''PhD'')]"
  by (simp add: normalizeDegree_def split_ms_phd level_ms level_phd set_of_array_def)
     (simp add: js_def)

lemma split_constructor: "splitDegrees (js ''Constructor'') = [js ''Constructor'']"
  by (simp add: splitDegrees_def rx_split_def rx_match_at_def degreeSeparator_def js_def cu_def
      ChrI_def lower_ascii_def is_upper_ascii_def is_word_char_def is_digit_def is_lower_ascii_def
      trim_def is_space_def)

lemma lower_constructor: "toLowerCase (trim (js ''Constructor'')) = js ''constructor''"
  by (simp add: js_def trim_def toLowerCase_def lower_ascii_def is_upper_ascii_def is_space_def)

lemma level_constructor: "normalizeDegreeLevel (js ''Constructor'') = Inherited (js ''constructor'')"
  unfolding normalizeDegreeLevel_def lower_constructor
  by (simp add: get_property_def degreeMapping_def object_prototype_keys_def js_def)

lemma spec_constructor: "spec_degree_level (js ''Constructor'') = js ''Constructor''"
  unfolding spec_degree_level_def lower_constructor
  by (simp add: degreeMapping_def js_def capitalizeWords_def cu_def toUpperCase_def toLowerCase_def
      upper_ascii_def lower_ascii_def is_upper_ascii_def is_lower_ascii_def)

text \<open>
  Claim C5 says that every fragment is mapped through the synonym table: exact match,
  then containment, then title case. For the degree text \<^verbatim>\<open>"Constructor"\<close> that gives
  \<^verbatim>\<open>"Constructor"\<close> (no key of the table equals or is contained in \<^verbatim>\<open>constructor\<close>).
  The code reads \<^verbatim>\<open>this.degreeMapping["constructor"]\<close>, finds the inherited
  \<^verbatim>\<open>Object.prototype.constructor\<close>, which is truthy, and returns it: the result list
  holds a function, not a string.
\<close>

theorem normalizeDegree_inherited_member:
  "normalizeDegree (Inl (js ''Constructor'')) = [Inherited (js ''constructor'')]
   \<and> spec_degree_level (js ''Constructor'') = js ''Constructor''
   \<and> normalizeDegree (Inl (js ''Constructor'')) \<noteq> [StrVal (spec_degree_level (js ''Constructor''))]"
  by (simp add: normalizeDegree_def split_constructor level_constructor spec_constructor set_of_array_def)

section \<open>Properties of the Deadline Calculator\<close>

lemma js_lt_not_ge: "js_lt x (Num 0) \<Longrightarrow> \<not> js_ge x (Num 0)"
  by (cases x) (auto simp: js_ge_def)

text \<open>
  In terms of the day count, \<^verbatim>\<open>isWithinDays\<close> is as written: it holds exactly when
  \<^verbatim>\<open>daysUntil\<close> is not \<^verbatim>\<open>null\<close>, is at least 0 and is at most \<open>days\<close>, so never when
  the day count is negative. Whether a past deadline is excluded thus rests on the day
  count of a past deadline being negative.
\<close>

lemma isWithinDays_by_count:
  "(\<forall>x. daysUntil env now d = Some x \<and> js_lt x (Num 0) \<longrightarrow> \<not> isWithinDays env now d days)
   \<and> (isWithinDays env now d days \<longleftrightarrow>
        (\<exists>x. daysUntil env now d = Some x \<and> js_ge x (Num 0) \<and> js_le x days))"
  by (auto simp: isWithinDays_def js_lt_not_ge split: option.splits)

text \<open>
  Between two days of 24 hours the count is what one expects: in the UTC zone a deadline
  two milliseconds back, on the day before, has the day count \<open>- 1\<close>.
\<close>

lemma civil_20087: "civil_from_day 20087 = (2024, 11, 30)"
  unfolding civil_from_day_def Let_def by simp

lemma midnight_dec30: "new_Date_ymd utc_zone 2024 11 30 = Some 1735516800000"
  by (simp add: new_Date_ymd_def MakeDay_def DayFromYear_def DaysBeforeMonth_def InLeapYear_def
      msPerDay_def UTC_def utc_zone_def TimeClip_def)

lemma midnight_dec31: "new_Date_ymd utc_zone 2024 11 31 = Some 1735603200000"
  by (simp add: new_Date_ymd_def MakeDay_def DayFromYear_def DaysBeforeMonth_def InLeapYear_def
      msPerDay_def UTC_def utc_zone_def TimeClip_def)

lemma local_fields_utc:
  "getFullYear utc_zone t = fst (civil_from_day (t div 86400000))"
  "getMonth utc_zone t = fst (snd (civil_from_day (t div 86400000)))"
  "getDate utc_zone t = snd (snd (civil_from_day (t div 86400000)))"
  by (simp_all add: getFullYear_def getMonth_def getDate_def LocalTime_def utc_zone_def
      YearFromTime_def MonthFromTime_def DateFromTime_def Day_def msPerDay_def)

lemma daysUntil_yesterday:
  "daysUntil utc_platform 1735603200001 (DeadlineDate (Some 1735603199999)) = Some (Num (- 1))"
  by (simp add: daysUntil_def utc_platform_def local_fields_utc civil_20087 civil_2024_12_31
      midnight_dec30 midnight_dec31)

text \<open>The dates and local midnights of the example in the zone of New York.\<close>

lemma civil_march_2024:
  "civil_from_day 19792 = (2024, 2, 10)" "civil_from_day 19793 = (2024, 2, 11)"
  unfolding civil_from_day_def Let_def by simp_all

lemma make_day_march_2024: "MakeDay 2024 2 10 = 19792" "MakeDay 2024 2 11 = 19793"
  by (simp_all add: MakeDay_def DayFromYear_def DaysBeforeMonth_def InLeapYear_def)

lemma new_york_dates:
  "local_date (zone new_york_platform) 1710072000000 = (2024, 2, 10)"
  "local_date (zone new_york_platform) 1710158400000 = (2024, 2, 11)"
  by (simp_all add: local_date_def new_york_platform_def getFullYear_def getMonth_def getDate_def
      LocalTime_def YearFromTime_def MonthFromTime_def DateFromTime_def Day_def msPerDay_def
      civil_march_2024)

lemma new_york_midnights:
  "new_Date_ymd (zone new_york_platform) 2024 2 10 = Some 1710046800000"
  "new_Date_ymd (zone new_york_platform) 2024 2 11 = Some 1710129600000"
  by (simp_all add: new_Date_ymd_def new_york_platform_def make_day_march_2024 msPerDay_def
      UTC_def TimeClip_def)

lemma daysUntil_after_short_day:
  "daysUntil new_york_platform 1710158400000 (DeadlineDate (Some 1710072000000)) = Some (Num 0)"
proof -
  have f: "getFullYear (zone new_york_platform) 1710072000000 = 2024"
      "getMonth (zone new_york_platform) 1710072000000 = 2"
      "getDate (zone new_york_platform) 1710072000000 = 10"
      "getFullYear (zone new_york_platform) 1710158400000 = 2024"
      "getMonth (zone new_york_platform) 1710158400000 = 2"
      "getDate (zone new_york_platform) 1710158400000 = 11"
    using new_york_dates by (simp_all add: local_date_def)
  show ?thesis
    by (simp add: daysUntil_def f new_york_midnights)
qed

text \<open>
  Claim C8 says that a deadline whose parsed date is strictly before today is within no
  number of days \<open>days \<ge> 0\<close>. In the zone of New York let the clock read 11 March 2024,
  08:00 local time, and let the deadline be 10 March 2024, 08:00 local time: it lies 24
  hours back and its date is the day before today's. 10 March is the day the clocks went
  forward, so the two local midnights are 23 hours apart, and the day count
  \<^verbatim>\<open>Math.ceil(diffMs / 86400000)\<close> is the ceiling of \<open>- 23 / 24\<close>, which is 0 and not
  negative. \<^verbatim>\<open>isWithinDays\<close> is therefore true of this past deadline, for 0 days and
  for 7 days.
\<close>

theorem isWithinDays_past_deadline_short_day:
  "(1710072000000 :: int) < 1710158400000
   \<and> date_before (local_date (zone new_york_platform) 1710072000000)
                 (local_date (zone new_york_platform) 1710158400000)
   \<and> daysUntil new_york_platform 1710158400000 (DeadlineDate (Some 1710072000000)) = Some (Num 0)
   \<and> isWithinDays new_york_platform 1710158400000 (DeadlineDate (Some 1710072000000)) (Num 0)
   \<and> isWithinDays new_york_platform 1710158400000 (DeadlineDate (Some 1710072000000)) (Num 7)"
  by (simp add: new_york_dates isWithinDays_def daysUntil_after_short_day js_ge_def)

section \<open>Properties of the Validator\<close>

lemma validateFieldConstraints_eq:
  "validateFieldConstraints f v (es, ws) = (es @ constraint_errors f v, ws @ constraint_warnings f v)"
  by (simp add: validateFieldConstraints_def constraint_errors_def constraint_warnings_def
      stringValue_of_def minLength_error_def pattern_error_def maxLength_warning_def Let_def
      split: option.splits)

lemma check_required_eq:
  "f \<in> set schema_required \<Longrightarrow>
   check_required sch (es, ws) f = (es @ expected_errors sch f, ws @ expected_warnings sch f)"
  by (simp add: check_required_def expected_errors_def expected_warnings_def
      validateFieldConstraints_eq required_error_def Let_def)

lemma check_optional_eq:
  "f \<notin> set schema_required \<Longrightarrow>
   check_optional sch (es, ws) f = (es @ expected_errors sch f, ws @ expected_warnings sch f)"
  by (simp add: check_optional_def expected_errors_def expected_warnings_def
      validateFieldConstraints_eq Let_def)

lemma foldl_check_required:
  "set fs \<subseteq> set schema_required \<Longrightarrow>
   foldl (check_required sch) (es, ws) fs =
     (es @ concat (map (expected_errors sch) fs), ws @ concat (map (expected_warnings sch) fs))"
  by (induction fs arbitrary: es ws) (simp_all add: check_required_eq)

lemma foldl_check_optional:
  "set fs \<inter> set schema_required = {} \<Longrightarrow>
   foldl (check_optional sch) (es, ws) fs =
     (es @ concat (map (expected_errors sch) fs), ws @ concat (map (expected_warnings sch) fs))"
  by (induction fs arbitrary: es ws) (simp_all add: check_optional_eq)

lemma schema_disjoint: "set schema_optional \<inter> set schema_required = {}"
  by (simp add: schema_optional_def schema_required_def js_def)

lemma schema_distinct: "distinct (schema_required @ schema_optional)"
  by (simp add: schema_optional_def schema_required_def js_def)

lemma validate_eq:
  "errors (validate sch) = concat (map (expected_errors sch) (schema_required @ schema_optional))"
  "warnings (validate sch) = concat (map (expected_warnings sch) (schema_required @ schema_optional))"
  "isValid (validate sch) = (errors (validate sch) = [])"
  using foldl_check_required[of schema_required sch "[]" "[]"]
        foldl_check_optional[OF schema_disjoint, of sch]
  by (simp_all add: validate_def Let_def)

lemma expected_errors_field: "e \<in> set (expected_errors sch f) \<Longrightarrow> field e = f"
  by (auto simp: expected_errors_def constraint_errors_def required_error_def minLength_error_def
      pattern_error_def split: if_splits option.splits)

lemma expected_warnings_field: "w \<in> set (expected_warnings sch f) \<Longrightarrow> w_field w = f"
  by (auto simp: expected_warnings_def constraint_warnings_def maxLength_warning_def
      split: if_splits option.splits)

lemma filter_concat_by_key:
  assumes "\<And>g x. x \<in> set (X g) \<Longrightarrow> key x = g"
  shows "distinct fs \<Longrightarrow> f \<in> set fs \<Longrightarrow> filter (\<lambda>x. key x = f) (concat (map X fs)) = X f"
proof (induction fs)
  case Nil
  then show ?case by simp
next
  case (Cons g fs)
  have own: "filter (\<lambda>x. key x = g) (X g) = X g"
    using assms by (simp add: filter_id_conv)
  have other: "filter (\<lambda>x. key x = f) (X g) = []" if "f \<noteq> g"
    using assms that by (auto simp: filter_empty_conv)
  have none: "filter (\<lambda>x. key x = g) (concat (map X fs)) = []" if "g \<notin> set fs"
    using assms that by (auto simp: filter_empty_conv)
  show ?case
  proof (cases "f = g")
    case True
    then show ?thesis using Cons.prems own none by simp
  next
    case False
    then show ?thesis using Cons other by simp
  qed
qed

lemma errors_of_field:
  assumes "f \<in> set (schema_required @ schema_optional)"
  shows "filter (\<lambda>e. field e = f) (errors (validate sch)) = expected_errors sch f"
  unfolding validate_eq
  by (rule filter_concat_by_key[where key = field, OF expected_errors_field schema_distinct assms])

lemma warnings_of_field:
  assumes "f \<in> set (schema_required @ schema_optional)"
  shows "filter (\<lambda>w. w_field w = f) (warnings (validate sch)) = expected_warnings sch f"
  unfolding validate_eq
  by (rule filter_concat_by_key[where key = w_field, OF expected_warnings_field schema_distinct assms])

text \<open>
  Claim C6. For every record and every field \<open>f\<close> of the schema, the errors and the
  warnings that \<^verbatim>\<open>validate\<close> reports for \<open>f\<close> are those of \<open>expected_errors\<close> and
  \<open>expected_warnings\<close>. In particular:
  \<^item> a required field (name, source, link) that is missing or empty gets exactly one
    error, the critical one, and no warning: its constraints are not checked;
  \<^item> a present field shorter than its minimum length gets the major error for it;
  \<^item> a present field longer than its maximum length gets the warning, and its errors are
    only those of its minimum length and pattern, so none for the length above the
    maximum;
  \<^item> \<^verbatim>\<open>isValid\<close> is true exactly when the error list is empty, whatever the warnings.
\<close>

theorem validate_contract:
  fixes sch :: scholarship_obj
  shows
   "(\<forall>f \<in> set (schema_required @ schema_optional).
        filter (\<lambda>e. field e = f) (errors (validate sch)) = expected_errors sch f
      \<and> filter (\<lambda>w. w_field w = f) (warnings (validate sch)) = expected_warnings sch f)
  \<and> (\<forall>f \<in> set schema_required. is_missing (sch f) \<longrightarrow>
        filter (\<lambda>e. field e = f) (errors (validate sch)) = [required_error f]
      \<and> filter (\<lambda>w. w_field w = f) (warnings (validate sch)) = [])
  \<and> (\<forall>f \<in> set (schema_required @ schema_optional). \<forall>c m.
        \<not> is_missing (sch f) \<and> map_of schema_constraints f = Some c \<and> minLength c = Some m
        \<and> length (stringValue_of (sch f)) < m \<longrightarrow>
        minLength_error f m \<in> set (errors (validate sch)) \<and> severity (minLength_error f m) = major)
  \<and> (\<forall>f \<in> set (schema_required @ schema_optional). \<forall>c m.
        \<not> is_missing (sch f) \<and> map_of schema_constraints f = Some c \<and> maxLength c = Some m
        \<and> length (stringValue_of (sch f)) > m \<longrightarrow>
        filter (\<lambda>w. w_field w = f) (warnings (validate sch)) = [maxLength_warning f m]
      \<and> filter (\<lambda>e. field e = f) (errors (validate sch)) =
          (case minLength c of
             Some n \<Rightarrow> if length (stringValue_of (sch f)) < n then [minLength_error f n] else []
           | None \<Rightarrow> [])
          @ (case pattern c of
               Some r \<Rightarrow> if \<not> rx_test r (stringValue_of (sch f)) then [pattern_error f] else []
             | None \<Rightarrow> []))
  \<and> (isValid (validate sch) \<longleftrightarrow> errors (validate sch) = [])"
proof -
  have A: "filter (\<lambda>e. field e = f) (errors (validate sch)) = expected_errors sch f
      \<and> filter (\<lambda>w. w_field w = f) (warnings (validate sch)) = expected_warnings sch f"
    if "f \<in> set (schema_required @ schema_optional)" for f
    using errors_of_field[OF that] warnings_of_field[OF that] by simp
  have B: "filter (\<lambda>e. field e = f) (errors (validate sch)) = [required_error f]
      \<and> filter (\<lambda>w. w_field w = f) (warnings (validate sch)) = []"
    if "f \<in> set schema_required" "is_missing (sch f)" for f
  proof -
    have "f \<in> set (schema_required @ schema_optional)" using that(1) by simp
    from A[OF this] that show ?thesis by (simp add: expected_errors_def expected_warnings_def)
  qed
  have C: "minLength_error f m \<in> set (errors (validate sch)) \<and> severity (minLength_error f m) = major"
    if "f \<in> set (schema_required @ schema_optional)" "\<not> is_missing (sch f)"
       "map_of schema_constraints f = Some c" "minLength c = Some m"
       "length (stringValue_of (sch f)) < m" for f c m
  proof -
    have "minLength_error f m \<in> set (expected_errors sch f)"
      using that by (simp add: expected_errors_def constraint_errors_def)
    then have "minLength_error f m \<in> set (filter (\<lambda>e. field e = f) (errors (validate sch)))"
      using A[OF that(1)] by simp
    then show ?thesis by (simp add: minLength_error_def)
  qed
  have D: "filter (\<lambda>w. w_field w = f) (warnings (validate sch)) = [maxLength_warning f m]
      \<and> filter (\<lambda>e. field e = f) (errors (validate sch)) =
          (case minLength c of
             Some n \<Rightarrow> if length (stringValue_of (sch f)) < n then [minLength_error f n] else []
           | None \<Rightarrow> [])
          @ (case pattern c of
               Some r \<Rightarrow> if \<not> rx_test r (stringValue_of (sch f)) then [pattern_error f] else []
             | None \<Rightarrow> [])"
    if "f \<in> set (schema_required @ schema_optional)" "\<not> is_missing (sch f)"
       "map_of schema_constraints f = Some c" "maxLength c = Some m"
       "length (stringValue_of (sch f)) > m" for f c m
    using A[OF that(1)] that
    by (simp add: expected_errors_def expected_warnings_def constraint_errors_def
        constraint_warnings_def)
  have E: "isValid (validate sch) \<longleftrightarrow> errors (validate sch) = []"
    by (rule validate_eq)
  show ?thesis using A B C D E by blast
qed

theorem validate_contract_witness:
  "filter (\<lambda>e. field e = js ''name'')
     (errors (validate (\<lambda>f. if f = js ''source'' then Str (replicate 101 97)
                            else if f = js ''link'' then Str (js ''https://example.org/a'')
                            else Undefined)))
     = [required_error (js ''name'')]
   \<and> filter (\<lambda>w. w_field w = js ''source'')
     (warnings (validate (\<lambda>f. if f = js ''source'' then Str (replicate 101 97)
                            else if f = js ''link'' then Str (js ''https://example.org/a'')
                            else Undefined)))
     = [maxLength_warning (js ''source'') 100]
   \<and> filter (\<lambda>e. field e = js ''source'')
     (errors (validate (\<lambda>f. if f = js ''source'' then Str (replicate 101 97)
                            else if f = js ''link'' then Str (js ''https://example.org/a'')
                            else Undefined)))
     = []
   \<and> minLength_error (js ''name'') 3 \<in> set (errors (validate (\<lambda>f. if f = js ''name'' then Str (js ''ab'') else Undefined)))
   \<and> \<not> isValid (validate (\<lambda>f. if f = js ''source'' then Str (replicate 101 97)
                            else if f = js ''link'' then Str (js ''https://example.org/a'')
                            else Undefined))"
proof -
  let ?s = "\<lambda>f. if f = js ''source'' then Str (replicate 101 97)
                 else if f = js ''link'' then Str (js ''https://example.org/a'')
                 else Undefined"
  let ?t = "\<lambda>f. if f = js ''name'' then Str (js ''ab'') else Undefined"
  have req: "js ''name'' \<in> set schema_required" "js ''source'' \<in> set (schema_required @ schema_optional)"
    "js ''name'' \<in> set (schema_required @ schema_optional)"
    by (simp_all add: schema_required_def)
  have miss: "is_missing (?s (js ''name''))" "\<not> is_missing (?s (js ''source''))"
    "\<not> is_missing (?t (js ''name''))"
    by (simp_all add: is_missing_def js_def)
  have c_source: "map_of schema_constraints (js ''source'') =
      Some \<lparr>minLength = Some 2, maxLength = Some 100, pattern = None\<rparr>"
    by (simp add: schema_constraints_def js_def)
  have c_name: "map_of schema_constraints (js ''name'') =
      Some \<lparr>minLength = Some 3, maxLength = Some 500, pattern = None\<rparr>"
    by (simp add: schema_constraints_def js_def)
  have len: "length (stringValue_of (?s (js ''source''))) > 100"
    "\<not> length (stringValue_of (?s (js ''source''))) < 2"
    "length (stringValue_of (?t (js ''name''))) < 3"
    by (simp_all add: stringValue_of_def js_def)
  note S = validate_contract[of ?s]
  note T = validate_contract[of ?t]
  have 1: "filter (\<lambda>e. field e = js ''name'') (errors (validate ?s)) = [required_error (js ''name'')]"
    using S req(1) miss(1) by blast
  have 2: "filter (\<lambda>w. w_field w = js ''source'') (warnings (validate ?s)) = [maxLength_warning (js ''source'') 100]
     \<and> filter (\<lambda>e. field e = js ''source'') (errors (validate ?s)) =
          (case minLength \<lparr>minLength = Some 2, maxLength = Some 100, pattern = None\<rparr> of
             Some n \<Rightarrow> if length (stringValue_of (?s (js ''source''))) < n then [minLength_error (js ''source'') n] else []
           | None \<Rightarrow> [])
          @ (case pattern \<lparr>minLength = Some 2, maxLength = Some 100, pattern = None\<rparr> of
               Some r \<Rightarrow> if \<not> rx_test r (stringValue_of (?s (js ''source''))) then [pattern_error (js ''source'')] else []
             | None \<Rightarrow> [])"
  proof -
    have h: "\<not> is_missing (?s (js ''source'')) \<and> map_of schema_constraints (js ''source'') = Some \<lparr>minLength = Some 2, maxLength = Some 100, pattern = None\<rparr>
        \<and> maxLength \<lparr>minLength = Some 2, maxLength = Some 100, pattern = None\<rparr> = Some 100
        \<and> length (stringValue_of (?s (js ''source''))) > 100"
      using miss(2) c_source len(1) by simp
    from S have "\<forall>f \<in> set (schema_required @ schema_optional). \<forall>c m.
        \<not> is_missing (?s f) \<and> map_of schema_constraints f = Some c \<and> maxLength c = Some m
        \<and> length (stringValue_of (?s f)) > m \<longrightarrow>
        filter (\<lambda>w. w_field w = f) (warnings (validate ?s)) = [maxLength_warning f m]
      \<and> filter (\<lambda>e. field e = f) (errors (validate ?s)) =
          (case minLength c of
             Some n \<Rightarrow> if length (stringValue_of (?s f)) < n then [minLength_error f n] else []
           | None \<Rightarrow> [])
          @ (case pattern c of
               Some r \<Rightarrow> if \<not> rx_test r (stringValue_of (?s f)) then [pattern_error f] else []
             | None \<Rightarrow> [])" by blast
    from this[rule_format, OF req(2) h] show ?thesis .
  qed
  have 3: "filter (\<lambda>e. field e = js ''source'') (errors (validate ?s)) = []"
    using 2 len(2) by simp
  have 4: "minLength_error (js ''name'') 3 \<in> set (errors (validate ?t))"
  proof -
    have h: "\<not> is_missing (?t (js ''name'')) \<and> map_of schema_constraints (js ''name'') = Some \<lparr>minLength = Some 3, maxLength = Some 500, pattern = None\<rparr>
        \<and> minLength \<lparr>minLength = Some 3, maxLength = Some 500, pattern = None\<rparr> = Some 3
        \<and> length (stringValue_of (?t (js ''name''))) < 3"
      using miss(3) c_name len(3) by simp
    from T have "\<forall>f \<in> set (schema_required @ schema_optional). \<forall>c m.
        \<not> is_missing (?t f) \<and> map_of schema_constraints f = Some c \<and> minLength c = Some m
        \<and> length (stringValue_of (?t f)) < m \<longrightarrow>
        minLength_error f m \<in> set (errors (validate ?t)) \<and> severity (minLength_error f m) = major"
      by blast
    from this[rule_format, OF req(3) h] show ?thesis by simp
  qed
  have 5: "\<not> isValid (validate ?s)"
  proof -
    have "errors (validate ?s) \<noteq> []" using 1 by auto
    moreover from S have "isValid (validate ?s) \<longleftrightarrow> errors (validate ?s) = []" by blast
    ultimately show ?thesis by simp
  qed
  show ?thesis using 1 2 3 4 5 by blast
qed

section \<open>Properties of the Rate Limiter\<close>

text \<open>
  One call, seen alone: a slot granted at once is granted no earlier than one interval
  after the recorded timestamp, and a timer is scheduled to the very moment one interval
  after it. The timestamp read is the one recorded when the call is made.
\<close>

lemma waitForSlot_spacing:
  "0 < interval this \<Longrightarrow>
   (case waitForSlot now this of
      (Granted, this') \<Rightarrow> lastRequestTime this + interval this \<le> now \<and> lastRequestTime this' = now
    | (Scheduled w, this') \<Rightarrow> 0 < w \<and> now + w = lastRequestTime this + interval this \<and> this' = this)"
  by (auto simp: waitForSlot_def Let_def max_def)

lemma processQueue_noop: "queue this = [] \<Longrightarrow> processQueue this = this"
  by (simp add: processQueue_def)

text \<open>
  Claim C9 says that of any two consecutive calls through one limiter the later operation
  begins no earlier than one interval after the timestamp recorded for the earlier, the
  calls being serialized. Three calls made at the same moment, time 5000, on a fresh
  limiter of one request per second: the first begins at once; the second and the third
  each find the timestamp 5000 and each schedule a timer for 6000; at 6000 both
  operations begin. The timestamp recorded for the second call is 6000 and the interval
  is 1000, so the third should not begin before 7000.
\<close>

theorem throttle_concurrent_calls:
  "begun (run_calls [(5000, 1), (5000, 2), (5000, 3)] (fresh_loop 1)) = [(1, 5000), (2, 6000), (3, 6000)]
   \<and> lastRequestTime (limiter (run_calls [(5000, 1), (5000, 2)] (fresh_loop 1))) = 6000
   \<and> interval (limiter (fresh_loop 1)) = 1000"
  by (simp add: fresh_loop_def new_RateLimiter_def call_throttle_def waitForSlot_def
      timer_callback_def Let_def)

end
